theory Spec2Isabelle
  imports Main "HOL-Library.AList"
begin

section \<open>Errors and Python indexing\<close>

text \<open>
  Every \<^verbatim>\<open>assert\<close>, \<^verbatim>\<open>raise\<close> and failing builtin of
  \<^verbatim>\<open>megatron/core/optimizer/distrib_optimizer.py\<close> is a value of \<open>error\<close>; a function
  that can fail returns \<open>error + 'a\<close> with \<open>Inl\<close> the exception.
\<close>

datatype error =
    AssertionError string
  | TypeError string
  | ValueError string
  | KeyError
  | IndexError
  | ZeroDivisionError
  | RuntimeError
  | UnboundLocalError string
  | CheckpointingException string

text \<open>Python's \<^verbatim>\<open>xs[i]\<close>: a negative index counts from the end, out of range raises.\<close>

definition py_index :: "'a list \<Rightarrow> int \<Rightarrow> error + 'a" where
  "py_index xs i =
     (if 0 \<le> i \<and> i < int (length xs) then Inr (xs ! nat i)
      else if i < 0 \<and> - int (length xs) \<le> i then Inr (xs ! nat (int (length xs) + i))
      else Inl IndexError)"

text \<open>
  Python's \<^verbatim>\<open>xs[a:b]\<close> on a one-dimensional tensor or list: negative bounds count from
  the end, and both bounds are clamped into \<open>[0, len]\<close>.
\<close>

definition py_clamp :: "int \<Rightarrow> int \<Rightarrow> nat" where
  "py_clamp n i = nat (if i < 0 then max 0 (n + i) else min i n)"

definition py_slice :: "'a list \<Rightarrow> int \<Rightarrow> int \<Rightarrow> 'a list" where
  "py_slice xs a b =
     (let n = int (length xs); lo = py_clamp n a; hi = py_clamp n b
      in take (hi - lo) (drop lo xs))"

section \<open>Range\<close>

text \<open>
  \<^verbatim>\<open>class Range\<close>: \<^verbatim>\<open>__init__\<close> stores \<open>start\<close>, \<open>end\<close> and
  \<open>size = end - start\<close>; \<^verbatim>\<open>normalize\<close> builds a new range of the same size
  at a new start.
\<close>

record Range_t =
  start_r :: int
  end_r :: int
  size_r :: int

definition Range_new :: "int \<Rightarrow> int \<Rightarrow> Range_t" where
  "Range_new s e = \<lparr>start_r = s, end_r = e, size_r = e - s\<rparr>"

definition normalize_r :: "Range_t \<Rightarrow> int \<Rightarrow> Range_t" where
  "normalize_r r s = Range_new s (s + size_r r)"

text \<open>The elements a range indexes, as a set of positions.\<close>

definition positions :: "Range_t \<Rightarrow> int set" where
  "positions r = {start_r r ..< end_r r}"

section \<open>Parameter range map of one shard\<close>

text \<open>
  The four ranges stored for a parameter that overlaps the local shard: the keys
  \<^verbatim>\<open>gbuf_world\<close>, \<^verbatim>\<open>gbuf_world_in_bucket\<close>, \<^verbatim>\<open>gbuf_local\<close> and
  \<^verbatim>\<open>param\<close> of the dictionary built by \<^verbatim>\<open>_build_model_gbuf_param_range_map\<close>.
\<close>

record param_ranges =
  gbuf_world :: Range_t
  gbuf_world_in_bucket :: Range_t
  gbuf_local :: Range_t
  param :: Range_t

text \<open>
  \<^verbatim>\<open>_build_model_gbuf_param_range_map\<close>. The argument \<^verbatim>\<open>param_world_index_map\<close>
  is a dictionary from parameters to triples \<open>(start, end, bucket id)\<close>; it is the list of its
  items in iteration order (the keys of a dictionary are distinct). The result dictionary is the
  list of its items in insertion order.
\<close>

fun build_model_gbuf_param_range_map ::
  "('p \<times> int \<times> int \<times> 'b) list \<Rightarrow> Range_t \<Rightarrow> int \<Rightarrow> ('p \<times> param_ranges) list" where
  "build_model_gbuf_param_range_map [] gbuf_world_range bucket_offset = []"
| "build_model_gbuf_param_range_map ((p, param_world_start, param_world_end, b) # rest)
     gbuf_world_range bucket_offset =
     (let param_local_start = max 0 (param_world_start - start_r gbuf_world_range);
          param_local_end =
            min (size_r gbuf_world_range) (param_world_end - start_r gbuf_world_range)
      in if param_local_end > param_local_start then
           (let param_local_range = Range_new param_local_start param_local_end;
                param_world_range =
                  normalize_r param_local_range (param_local_start + start_r gbuf_world_range);
                param_world_range_in_bucket =
                  Range_new (start_r param_world_range - bucket_offset)
                            (end_r param_world_range - bucket_offset);
                sub_param_start = max 0 (start_r gbuf_world_range - param_world_start);
                sub_param_range = normalize_r param_local_range sub_param_start
            in (p, \<lparr>gbuf_world = param_world_range,
                    gbuf_world_in_bucket = param_world_range_in_bucket,
                    gbuf_local = param_local_range,
                    param = sub_param_range\<rparr>)
               # build_model_gbuf_param_range_map rest gbuf_world_range bucket_offset)
         else build_model_gbuf_param_range_map rest gbuf_world_range bucket_offset)"

section \<open>Partition of a bucket into the ranks' shards\<close>

text \<open>
  What \<^verbatim>\<open>_build_model_gbuf_range\<close> reads of a bucket: \<^verbatim>\<open>grad_data.numel()\<close>,
  \<^verbatim>\<open>offset\<close> and \<^verbatim>\<open>numel_unpadded\<close>.
\<close>

record bucket =
  grad_data_numel :: int
  offset :: int
  numel_unpadded :: int

text \<open>
  The loop \<^verbatim>\<open>for r in range(data_parallel_world_size)\<close> of
  \<^verbatim>\<open>_build_model_gbuf_range\<close>, which fills \<^verbatim>\<open>gbuf_world_all_ranges\<close>.
\<close>

definition gbuf_world_range_of :: "int \<Rightarrow> int \<Rightarrow> int \<Rightarrow> nat \<Rightarrow> Range_t" where
  "gbuf_world_range_of gbuf_size max_gbuf_range_size bucket_offset r =
     (let gbuf_world_start = int r * max_gbuf_range_size;
          gbuf_world_end = min gbuf_size (gbuf_world_start + max_gbuf_range_size)
      in Range_new (gbuf_world_start + bucket_offset) (gbuf_world_end + bucket_offset))"

definition gbuf_world_all_ranges :: "int \<Rightarrow> int \<Rightarrow> int \<Rightarrow> Range_t list" where
  "gbuf_world_all_ranges gbuf_size data_parallel_world_size bucket_offset =
     map (gbuf_world_range_of gbuf_size (gbuf_size div data_parallel_world_size) bucket_offset)
         [0 ..< nat data_parallel_world_size]"

text \<open>
  \<^verbatim>\<open>_build_model_gbuf_range\<close> for the rank \<open>data_parallel_rank\<close> of a group of
  \<open>data_parallel_world_size\<close> ranks. The assertion on divisibility comes first; Python's
  \<^verbatim>\<open>%\<close> by zero raises. The result is the \<^verbatim>\<open>param_map\<close> of the returned dictionary.
\<close>

definition build_model_gbuf_range ::
  "int \<Rightarrow> int \<Rightarrow> bucket \<Rightarrow> ('p \<times> int \<times> int \<times> 'b) list \<Rightarrow> error + ('p \<times> param_ranges) list" where
  "build_model_gbuf_range data_parallel_rank data_parallel_world_size bkt param_index_map =
     (let gbuf_size = grad_data_numel bkt
      in if data_parallel_world_size = 0 then Inl ZeroDivisionError
         else if gbuf_size mod data_parallel_world_size \<noteq> 0 then
           Inl (AssertionError ''Each bucket's buffer size should be divisible by world size'')
         else
           (case py_index (gbuf_world_all_ranges gbuf_size data_parallel_world_size (offset bkt))
                          data_parallel_rank of
              Inl e \<Rightarrow> Inl e
            | Inr gbuf_world_range \<Rightarrow>
                Inr (build_model_gbuf_param_range_map param_index_map gbuf_world_range
                       (offset bkt))))"

section \<open>Optimizer group ranges\<close>

text \<open>
  \<^verbatim>\<open>gbuf_ranges\<close> is a list with one dictionary per buffer; the dictionary maps the buffer's
  dtype pair to the list of its buckets' parameter maps (in the source each bucket is the
  dictionary \<^verbatim>\<open>{"param_map": ...}\<close>). Dictionaries are the lists of their items.
\<close>

type_synonym 'p param_map = "('p \<times> param_ranges) list"
type_synonym ('d, 'p) gbuf_range_map = "('d \<times> 'p param_map list) list"

text \<open>
  The order in which the nested loops over \<^verbatim>\<open>gbuf_ranges\<close>, the dtypes, the buckets and
  the parameter map visit the locally owned parameters.
\<close>

definition owned_params :: "('d, 'p) gbuf_range_map list \<Rightarrow> 'p list" where
  "owned_params gbuf_ranges =
     concat (map (\<lambda>gbuf_range_map.
       concat (map (\<lambda>(dtype, gbuf_range_map_for_all_buckets).
         concat (map (map fst) gbuf_range_map_for_all_buckets)) gbuf_range_map)) gbuf_ranges)"

text \<open>An optimizer parameter group: its \<^verbatim>\<open>params\<close> and the rest of its settings.\<close>

record ('p, 'c) param_group =
  params :: "'p list"
  settings :: 'c

text \<open>An entry of \<^verbatim>\<open>group_ranges\<close>.\<close>

record ('p, 'c) group_range =
  range_params :: "'p list"
  orig_group :: "('p, 'c) param_group"
  orig_group_idx :: "('p, 'c) param_group"

text \<open>
  First loop of \<^verbatim>\<open>_build_optimizer_group_ranges\<close>: \<^verbatim>\<open>world_param_group_map\<close>, with the
  assertion \<^verbatim>\<open>param.requires_grad\<close> on every parameter of every group.
\<close>

fun world_param_group_map_group ::
  "('p \<Rightarrow> bool) \<Rightarrow> nat \<Rightarrow> 'p list \<Rightarrow> ('p \<rightharpoonup> nat) \<Rightarrow> error + ('p \<rightharpoonup> nat)" where
  "world_param_group_map_group requires_grad group_index [] w = Inr w"
| "world_param_group_map_group requires_grad group_index (p # ps) w =
     (if requires_grad p
      then world_param_group_map_group requires_grad group_index ps (w(p \<mapsto> group_index))
      else Inl (AssertionError ''param.requires_grad''))"

fun world_param_group_map ::
  "('p \<Rightarrow> bool) \<Rightarrow> nat \<Rightarrow> ('p, 'c) param_group list \<Rightarrow> ('p \<rightharpoonup> nat) \<Rightarrow> error + ('p \<rightharpoonup> nat)" where
  "world_param_group_map requires_grad group_index [] w = Inr w"
| "world_param_group_map requires_grad group_index (g # gs) w =
     (case world_param_group_map_group requires_grad group_index (params g) w of
        Inl e \<Rightarrow> Inl e
      | Inr w' \<Rightarrow> world_param_group_map requires_grad (Suc group_index) gs w')"

text \<open>
  Second loop: every owned parameter is appended to the list of its group and
  \<^verbatim>\<open>local_param_group_map\<close> records its group index and its position in that list. A
  parameter that is in no group raises \<^verbatim>\<open>KeyError\<close>.
\<close>

fun assign_group_ranges ::
  "('p \<rightharpoonup> nat) \<Rightarrow> 'p list \<Rightarrow> ('p \<rightharpoonup> nat \<times> nat) \<Rightarrow> 'p list list
   \<Rightarrow> error + ('p \<rightharpoonup> nat \<times> nat) \<times> 'p list list" where
  "assign_group_ranges w [] local_param_group_map group_ranges =
     Inr (local_param_group_map, group_ranges)"
| "assign_group_ranges w (p # ps) local_param_group_map group_ranges =
     (case w p of
        None \<Rightarrow> Inl KeyError
      | Some group_index \<Rightarrow>
          (if group_index < length group_ranges then
             (let group_range = group_ranges ! group_index @ [p]
              in assign_group_ranges w ps
                   (local_param_group_map(p \<mapsto> (group_index, length group_range - 1)))
                   (group_ranges[group_index := group_range]))
           else Inl IndexError))"

text \<open>
  \<^verbatim>\<open>_build_optimizer_group_ranges\<close>: the two loops, then the loop that stores the original
  group in every entry (under both \<^verbatim>\<open>orig_group\<close> and \<^verbatim>\<open>orig_group_idx\<close>).
\<close>

definition build_optimizer_group_ranges ::
  "('p \<Rightarrow> bool) \<Rightarrow> ('p, 'c) param_group list \<Rightarrow> ('d, 'p) gbuf_range_map list
   \<Rightarrow> error + ('p \<rightharpoonup> nat \<times> nat) \<times> ('p, 'c) group_range list" where
  "build_optimizer_group_ranges requires_grad param_groups gbuf_ranges =
     (case world_param_group_map requires_grad 0 param_groups Map.empty of
        Inl e \<Rightarrow> Inl e
      | Inr w \<Rightarrow>
          (case assign_group_ranges w (owned_params gbuf_ranges) Map.empty
                  (map (\<lambda>_. []) param_groups) of
             Inl e \<Rightarrow> Inl e
           | Inr (local_param_group_map, group_ranges) \<Rightarrow>
               Inr (local_param_group_map,
                    map (\<lambda>(group_range, g).
                           \<lparr>range_params = group_range, orig_group = g, orig_group_idx = g\<rparr>)
                        (zip group_ranges param_groups))))"

text \<open>The invariant of the second loop: every recorded position holds its parameter.\<close>

definition positions_valid :: "('p \<rightharpoonup> nat \<times> nat) \<Rightarrow> 'p list list \<Rightarrow> bool" where
  "positions_valid lm gr \<longleftrightarrow>
     (\<forall>p gi ord. lm p = Some (gi, ord) \<longrightarrow>
        gi < length gr \<and> ord < length (gr ! gi) \<and> gr ! gi ! ord = p)"

section \<open>Model and main parameter shards\<close>

text \<open>
  What \<^verbatim>\<open>_build_model_and_main_param_groups\<close> reads of a model parameter:
  \<^verbatim>\<open>requires_grad\<close>, the string \<^verbatim>\<open>model_param.type()\<close>, the flattened values
  \<^verbatim>\<open>view(-1)\<close>, the value of \<^verbatim>\<open>get_high_precision_init_val()\<close> (present when the
  parameter is a float8 tensor with that method), the attributes that
  \<^verbatim>\<open>copy_tensor_model_parallel_attributes\<close> copies, and \<^verbatim>\<open>shared\<close> when it is set.
\<close>

record ('a, 't) model_param =
  requires_grad :: bool
  type_name :: string
  flat :: "'a list"
  high_precision_init_val :: "'a list option"
  tp_attributes :: 't
  shared :: "bool option"

text \<open>A shard tensor built for the optimizer, with the attributes copied onto it.\<close>

record ('a, 't) shard =
  shard_data :: "'a list"
  shard_tp_attributes :: 't
  shard_shared :: "bool option"

text \<open>
  \<^verbatim>\<open>param_gbuf_map[model_param]\<close>, then
  \<^verbatim>\<open>gbuf_ranges[gbuf_index][dtype][bucket_index]["param_map"][model_param]["param"]\<close>:
  a missing key raises \<^verbatim>\<open>KeyError\<close>, an index out of range \<^verbatim>\<open>IndexError\<close>.
\<close>

definition param_range_of ::
  "('d, 'p) gbuf_range_map list \<Rightarrow> ('p \<rightharpoonup> nat \<times> 'd \<times> nat) \<Rightarrow> 'p \<Rightarrow> error + Range_t" where
  "param_range_of gbuf_ranges param_gbuf_map model_param =
     (case param_gbuf_map model_param of
        None \<Rightarrow> Inl KeyError
      | Some (gbuf_index, dtype, bucket_index) \<Rightarrow>
          (if gbuf_index < length gbuf_ranges then
             (case map_of (gbuf_ranges ! gbuf_index) dtype of
                None \<Rightarrow> Inl KeyError
              | Some buckets \<Rightarrow>
                  (if bucket_index < length buckets then
                     (case map_of (buckets ! bucket_index) model_param of
                        None \<Rightarrow> Inl KeyError
                      | Some param_range_map \<Rightarrow> Inr (param param_range_map))
                   else Inl IndexError))
           else Inl IndexError))"

text \<open>The five lists filled for one group, and the parameters whose initial value was released.\<close>

record ('p, 'a, 't) group_shards =
  model_float16_params_this_group :: "'p list"
  model_fp32_params_this_group :: "'p list"
  shard_float16_params_this_group :: "('a, 't) shard list"
  shard_fp32_params_this_group :: "('a, 't) shard list"
  shard_fp32_from_float16_params_this_group :: "('a, 't) shard list"
  cleared_high_precision_init_val :: "'p list"

definition empty_group_shards :: "('p, 'a, 't) group_shards" where
  "empty_group_shards =
     \<lparr>model_float16_params_this_group = [], model_fp32_params_this_group = [],
      shard_float16_params_this_group = [], shard_fp32_params_this_group = [],
      shard_fp32_from_float16_params_this_group = [], cleared_high_precision_init_val = []\<rparr>"

text \<open>
  The loop \<^verbatim>\<open>for model_param in group_range["params"]\<close>. \<open>attr\<close> gives a parameter's
  attributes, \<open>to_float\<close> is the conversion \<^verbatim>\<open>.float()\<close> of one value.
\<close>

fun shards_of_group ::
  "('p \<Rightarrow> ('a, 't) model_param) \<Rightarrow> ('a \<Rightarrow> 'a) \<Rightarrow> ('d, 'p) gbuf_range_map list
   \<Rightarrow> ('p \<rightharpoonup> nat \<times> 'd \<times> nat) \<Rightarrow> 'p list \<Rightarrow> ('p, 'a, 't) group_shards
   \<Rightarrow> error + ('p, 'a, 't) group_shards" where
  "shards_of_group attr to_float gbuf_ranges param_gbuf_map [] acc = Inr acc"
| "shards_of_group attr to_float gbuf_ranges param_gbuf_map (model_param # rest) acc =
     (if \<not> requires_grad (attr model_param) then
        Inl (AssertionError ''model_param.requires_grad'')
      else
        (case param_range_of gbuf_ranges param_gbuf_map model_param of
           Inl e \<Rightarrow> Inl e
         | Inr param_range \<Rightarrow>
             (if type_name (attr model_param)
                   \<in> set [''torch.cuda.HalfTensor'', ''torch.cuda.BFloat16Tensor''] then
                (let shard_model_param =
                       \<lparr>shard_data = py_slice (flat (attr model_param))
                                       (start_r param_range) (end_r param_range),
                        shard_tp_attributes = tp_attributes (attr model_param),
                        shard_shared = shared (attr model_param)\<rparr>;
                     shard_main_param =
                       \<lparr>shard_data =
                          (case high_precision_init_val (attr model_param) of
                             Some init_val \<Rightarrow>
                               map to_float
                                 (py_slice init_val (start_r param_range) (end_r param_range))
                           | None \<Rightarrow> map to_float (shard_data shard_model_param)),
                        shard_tp_attributes = tp_attributes (attr model_param),
                        shard_shared = shared (attr model_param)\<rparr>
                 in shards_of_group attr to_float gbuf_ranges param_gbuf_map rest
                      (acc\<lparr>model_float16_params_this_group :=
                              model_float16_params_this_group acc @ [model_param],
                            shard_float16_params_this_group :=
                              shard_float16_params_this_group acc @ [shard_model_param],
                            shard_fp32_from_float16_params_this_group :=
                              shard_fp32_from_float16_params_this_group acc @ [shard_main_param],
                            cleared_high_precision_init_val :=
                              (case high_precision_init_val (attr model_param) of
                                 Some _ \<Rightarrow> cleared_high_precision_init_val acc @ [model_param]
                               | None \<Rightarrow> cleared_high_precision_init_val acc)\<rparr>))
              else if type_name (attr model_param) = ''torch.cuda.FloatTensor'' then
                (let shard_model_param =
                       \<lparr>shard_data = py_slice (flat (attr model_param))
                                       (start_r param_range) (end_r param_range),
                        shard_tp_attributes = tp_attributes (attr model_param),
                        shard_shared = shared (attr model_param)\<rparr>
                 in shards_of_group attr to_float gbuf_ranges param_gbuf_map rest
                      (acc\<lparr>model_fp32_params_this_group :=
                              model_fp32_params_this_group acc @ [model_param],
                            shard_fp32_params_this_group :=
                              shard_fp32_params_this_group acc @ [shard_model_param]\<rparr>))
              else
                Inl (TypeError
                  (''Wrapped parameters must be one of torch.cuda.FloatTensor,  ''
                   @ ''torch.cuda.HalfTensor, or torch.cuda.BFloat16Tensor. Received ''
                   @ type_name (attr model_param))))))"

text \<open>
  \<^verbatim>\<open>_build_model_and_main_param_groups\<close>: the loop over \<^verbatim>\<open>opt_group_ranges\<close>. The result
  holds, for every group in order, its five lists (the five returned lists of lists are their
  projections) and the new \<^verbatim>\<open>params\<close> of the group's \<^verbatim>\<open>orig_group\<close>.
\<close>

fun build_model_and_main_param_groups ::
  "('p \<Rightarrow> ('a, 't) model_param) \<Rightarrow> ('a \<Rightarrow> 'a) \<Rightarrow> ('d, 'p) gbuf_range_map list
   \<Rightarrow> ('p \<rightharpoonup> nat \<times> 'd \<times> nat) \<Rightarrow> ('p, 'c) group_range list
   \<Rightarrow> error + (('p, 'a, 't) group_shards \<times> ('a, 't) shard list) list" where
  "build_model_and_main_param_groups attr to_float gbuf_ranges param_gbuf_map [] = Inr []"
| "build_model_and_main_param_groups attr to_float gbuf_ranges param_gbuf_map
     (group_range # rest) =
     (case shards_of_group attr to_float gbuf_ranges param_gbuf_map (range_params group_range)
             empty_group_shards of
        Inl e \<Rightarrow> Inl e
      | Inr this_group \<Rightarrow>
          (case build_model_and_main_param_groups attr to_float gbuf_ranges param_gbuf_map rest of
             Inl e \<Rightarrow> Inl e
           | Inr groups \<Rightarrow>
               Inr ((this_group,
                     shard_fp32_params_this_group this_group
                     @ shard_fp32_from_float16_params_this_group this_group) # groups)))"

text \<open>The types that have no branch, and the error raised for one of them.\<close>

definition unsupported :: "('p \<Rightarrow> ('a, 't) model_param) \<Rightarrow> 'p \<Rightarrow> bool" where
  "unsupported attr p \<longleftrightarrow>
     type_name (attr p) \<notin> {''torch.cuda.HalfTensor'', ''torch.cuda.BFloat16Tensor'',
                             ''torch.cuda.FloatTensor''}"

definition received :: "string \<Rightarrow> error" where
  "received t = TypeError
     (''Wrapped parameters must be one of torch.cuda.FloatTensor,  ''
      @ ''torch.cuda.HalfTensor, or torch.cuda.BFloat16Tensor. Received '' @ t)"

section \<open>The optimizer's parameters and state\<close>

text \<open>
  What the checkpoint code reads of the wrapped optimizer: \<^verbatim>\<open>optimizer.param_groups\<close> (the
  main parameter shards of every group, as handles of type \<open>'m\<close>), the values of a main
  parameter, and \<^verbatim>\<open>optimizer.state\<close>, a \<^verbatim>\<open>defaultdict(dict)\<close> from main parameters to
  dictionaries of tensors such as \<^verbatim>\<open>exp_avg\<close> and \<^verbatim>\<open>exp_avg_sq\<close>.
\<close>

record ('m, 'a) optimizer =
  param_groups :: "'m list list"
  main_data :: "'m \<Rightarrow> 'a list"
  state :: "'m \<Rightarrow> (string \<times> 'a list) list"

text \<open>
  \<^verbatim>\<open>group_index, group_order = self.model_param_group_index_map[model_param]\<close> and
  \<^verbatim>\<open>main_param = self.optimizer.param_groups[group_index]["params"][group_order]\<close>.
\<close>

definition main_param_of ::
  "('p \<rightharpoonup> nat \<times> nat) \<Rightarrow> ('m, 'a) optimizer \<Rightarrow> 'p \<Rightarrow> error + 'm" where
  "main_param_of model_param_group_index_map opt model_param =
     (case model_param_group_index_map model_param of
        None \<Rightarrow> Inl KeyError
      | Some (group_index, group_order) \<Rightarrow>
          (if group_index < length (param_groups opt) then
             (if group_order < length (param_groups opt ! group_index)
              then Inr (param_groups opt ! group_index ! group_order)
              else Inl IndexError)
           else Inl IndexError))"

text \<open>
  The dictionary \<^verbatim>\<open>{"param": main_param, **optim_state}\<close>: an entry of the state under the
  key \<^verbatim>\<open>param\<close> replaces the value and keeps the first position.
\<close>

definition param_and_state :: "('m, 'a) optimizer \<Rightarrow> 'm \<Rightarrow> (string \<times> 'a list) list" where
  "param_and_state opt main_param =
     fold (\<lambda>(k, v). AList.update k v) (state opt main_param)
          [(''param'', main_data opt main_param)]"

section \<open>The encoding fully sharded in bucket space\<close>

text \<open>
  An element of a bucket's state: the tensors by key, the two bounds
  \<^verbatim>\<open>gbuf_local_start\<close> and \<^verbatim>\<open>gbuf_local_end\<close>, and the key \<^verbatim>\<open>padding\<close> when present.
\<close>

record 'a bucket_elem =
  tensors :: "(string \<times> 'a list) list"
  gbuf_local_start :: int
  gbuf_local_end :: int
  padding :: "bool option"

text \<open>
  \<^verbatim>\<open>get_parameter_state_fs_bucket_space\<close>, the loop over the parameter map of one bucket.
\<close>

fun get_parameter_state_fs_bucket_space ::
  "('p \<rightharpoonup> nat \<times> nat) \<Rightarrow> ('m, 'a) optimizer \<Rightarrow> ('p \<times> param_ranges) list
   \<Rightarrow> error + 'a bucket_elem list" where
  "get_parameter_state_fs_bucket_space idx opt [] = Inr []"
| "get_parameter_state_fs_bucket_space idx opt ((model_param, param_range_map) # rest) =
     (case main_param_of idx opt model_param of
        Inl e \<Rightarrow> Inl e
      | Inr main_param \<Rightarrow>
          (case get_parameter_state_fs_bucket_space idx opt rest of
             Inl e \<Rightarrow> Inl e
           | Inr bucket_state \<Rightarrow>
               Inr (\<lparr>tensors = param_and_state opt main_param,
                     gbuf_local_start = start_r (gbuf_local param_range_map),
                     gbuf_local_end = end_r (gbuf_local param_range_map),
                     padding = None\<rparr> # bucket_state)))"

text \<open>
  \<^verbatim>\<open>torch.empty(n)\<close>: a negative size raises; the values are whatever the memory holds, here
  \<open>uninit\<close>. A padding element has one such tensor for every tensor of the element it is
  built from.
\<close>

definition pad_elem :: "'a \<Rightarrow> 'a bucket_elem \<Rightarrow> int \<Rightarrow> int \<Rightarrow> error + 'a bucket_elem" where
  "pad_elem uninit like from_idx to_idx =
     (if to_idx - from_idx < 0 then Inl RuntimeError
      else Inr \<lparr>tensors = map (\<lambda>(k, v). (k, replicate (nat (to_idx - from_idx)) uninit))
                             (tensors like),
                gbuf_local_start = from_idx,
                gbuf_local_end = to_idx,
                padding = Some True\<rparr>)"

text \<open>
  The loop \<^verbatim>\<open>for i in range(len(bucket_state) - 1)\<close> that fills \<^verbatim>\<open>all_pad_tensors\<close>: the
  entry \<open>i + 1\<close> is the padding between the elements \<open>i\<close> and \<open>i + 1\<close>. The first argument is
  the index \<open>i\<close> of the head of the list.
\<close>

fun all_pad_tensors :: "'a \<Rightarrow> nat \<Rightarrow> 'a bucket_elem list \<Rightarrow> error + (nat \<times> 'a bucket_elem) list" where
  "all_pad_tensors uninit i (cur # next # rest) =
     (let next_param_start = gbuf_local_start next;
          cur_param_end = gbuf_local_end cur
      in if next_param_start \<noteq> cur_param_end then
           (case pad_elem uninit cur cur_param_end next_param_start of
              Inl e \<Rightarrow> Inl e
            | Inr pad \<Rightarrow>
                (case all_pad_tensors uninit (Suc i) (next # rest) of
                   Inl e \<Rightarrow> Inl e
                 | Inr pads \<Rightarrow> Inr ((Suc i, pad) # pads)))
         else all_pad_tensors uninit (Suc i) (next # rest))"
| "all_pad_tensors uninit i bucket_state = Inr []"

text \<open>\<^verbatim>\<open>list.insert(index, x)\<close> for an index that is not negative.\<close>

definition list_insert :: "'a list \<Rightarrow> nat \<Rightarrow> 'a \<Rightarrow> 'a list" where
  "list_insert xs index x = take index xs @ x # drop index xs"

text \<open>
  The loop \<^verbatim>\<open>for index_to_insert in reversed(indices_to_insert)\<close>; the entries of
  \<^verbatim>\<open>all_pad_tensors\<close> are already in increasing order of their index.
\<close>

definition insert_pads :: "(nat \<times> 'a bucket_elem) list \<Rightarrow> 'a bucket_elem list \<Rightarrow> 'a bucket_elem list" where
  "insert_pads pads bucket_state =
     fold (\<lambda>(index_to_insert, pad) bs. list_insert bs index_to_insert pad) (rev pads) bucket_state"

text \<open>The trailing padding, appended when the last element ends before the shard does.\<close>

definition append_tail_pad :: "'a \<Rightarrow> int \<Rightarrow> 'a bucket_elem list \<Rightarrow> error + 'a bucket_elem list" where
  "append_tail_pad uninit gbuf_local_numel bucket_state =
     (if gbuf_local_end (last bucket_state) \<noteq> gbuf_local_numel then
        (case pad_elem uninit (last bucket_state) (gbuf_local_end (last bucket_state))
                gbuf_local_numel of
           Inl e \<Rightarrow> Inl e
         | Inr pad \<Rightarrow> Inr (bucket_state @ [pad]))
      else Inr bucket_state)"

text \<open>
  The \<^verbatim>\<open>ShardedTensor\<close> built for a tensor of a bucket element: its key, its data and
  the arguments that place it in the shard (the dtype, which is the tensor's own, is left out).
\<close>

record 'a sharded_tensor =
  st_key :: string
  st_data :: "'a list"
  local_shape :: int
  global_shape :: int
  global_offset :: int
  axis_fragmentations :: int
  flattened_range :: "int \<times> int"
  allow_shape_mismatch :: bool

text \<open>An element of the emitted bucket state: its sharded tensors and its padding flag.\<close>

record 'a sharded_elem =
  sharded_tensors :: "(string \<times> 'a sharded_tensor) list"
  is_padding :: bool

text \<open>
  The last loop of \<^verbatim>\<open>sharded_param_state_fs_bucket_space\<close> on one element: every tensor
  must have the shape \<open>(gbuf_local_end - gbuf_local_start,)\<close> and becomes a
  \<^verbatim>\<open>ShardedTensor\<close> with that slice as \<^verbatim>\<open>flattened_range\<close>; a missing \<^verbatim>\<open>padding\<close> key
  becomes \<^verbatim>\<open>False\<close>.
\<close>

fun wrap_tensors ::
  "string \<Rightarrow> int \<Rightarrow> int \<Rightarrow> int \<Rightarrow> int \<Rightarrow> int \<Rightarrow> (string \<times> 'a list) list
   \<Rightarrow> error + (string \<times> 'a sharded_tensor) list" where
  "wrap_tensors sharded_bucket_key data_parallel_rank data_parallel_world_size gbuf_local_numel
     slice_start slice_end [] = Inr []"
| "wrap_tensors sharded_bucket_key data_parallel_rank data_parallel_world_size gbuf_local_numel
     slice_start slice_end ((key, t) # rest) =
     (if int (length t) \<noteq> slice_end - slice_start then
        Inl (AssertionError ''tensors[key].shape == (gbuf_local_end - gbuf_local_start,)'')
      else
        (case wrap_tensors sharded_bucket_key data_parallel_rank data_parallel_world_size
                gbuf_local_numel slice_start slice_end rest of
           Inl e \<Rightarrow> Inl e
         | Inr ts \<Rightarrow>
             Inr ((key, \<lparr>st_key = sharded_bucket_key @ ''.'' @ key, st_data = t,
                         local_shape = gbuf_local_numel,
                         global_shape = data_parallel_world_size * gbuf_local_numel,
                         global_offset = data_parallel_rank * gbuf_local_numel,
                         axis_fragmentations = data_parallel_world_size,
                         flattened_range = (slice_start, slice_end),
                         allow_shape_mismatch = True\<rparr>) # ts)))"

fun wrap_elems ::
  "string \<Rightarrow> int \<Rightarrow> int \<Rightarrow> int \<Rightarrow> 'a bucket_elem list \<Rightarrow> error + 'a sharded_elem list" where
  "wrap_elems sharded_bucket_key data_parallel_rank data_parallel_world_size gbuf_local_numel
     [] = Inr []"
| "wrap_elems sharded_bucket_key data_parallel_rank data_parallel_world_size gbuf_local_numel
     (elem # rest) =
     (case wrap_tensors sharded_bucket_key data_parallel_rank data_parallel_world_size
             gbuf_local_numel (gbuf_local_start elem) (gbuf_local_end elem) (tensors elem) of
        Inl e \<Rightarrow> Inl e
      | Inr ts \<Rightarrow>
          (case wrap_elems sharded_bucket_key data_parallel_rank data_parallel_world_size
                  gbuf_local_numel rest of
             Inl e \<Rightarrow> Inl e
           | Inr elems \<Rightarrow>
               Inr (\<lparr>sharded_tensors = ts,
                     is_padding = (case padding elem of None \<Rightarrow> False | Some b \<Rightarrow> b)\<rparr>
                    # elems)))"

text \<open>
  \<^verbatim>\<open>sharded_param_state_fs_bucket_space\<close> for one bucket of \<open>gbuf_world_numel\<close> elements,
  on the rank \<open>data_parallel_rank\<close> of \<open>data_parallel_world_size\<close>; \<open>param_map\<close> is the
  bucket's entry of \<^verbatim>\<open>self.gbuf_ranges\<close>.
\<close>

definition sharded_param_state_fs_bucket_space ::
  "'a \<Rightarrow> string \<Rightarrow> int \<Rightarrow> int \<Rightarrow> int \<Rightarrow> ('p \<rightharpoonup> nat \<times> nat) \<Rightarrow> ('m, 'a) optimizer
   \<Rightarrow> ('p \<times> param_ranges) list \<Rightarrow> error + 'a sharded_elem list" where
  "sharded_param_state_fs_bucket_space uninit sharded_bucket_key data_parallel_rank
     data_parallel_world_size gbuf_world_numel idx opt param_map =
     (case get_parameter_state_fs_bucket_space idx opt param_map of
        Inl e \<Rightarrow> Inl e
      | Inr bucket_state \<Rightarrow>
          (if data_parallel_world_size = 0 then Inl ZeroDivisionError
           else if gbuf_world_numel mod data_parallel_world_size \<noteq> 0 then
             Inl (AssertionError ''gbuf_world_numel % data_parallel_world_size == 0'')
           else
             (let gbuf_local_numel = gbuf_world_numel div data_parallel_world_size
              in if bucket_state = [] then Inl (AssertionError ''empty bucket encountered'')
                 else
                   (case all_pad_tensors uninit 0 bucket_state of
                      Inl e \<Rightarrow> Inl e
                    | Inr pads \<Rightarrow>
                        (case append_tail_pad uninit gbuf_local_numel
                                (insert_pads pads bucket_state) of
                           Inl e \<Rightarrow> Inl e
                         | Inr padded \<Rightarrow>
                             wrap_elems sharded_bucket_key data_parallel_rank
                               data_parallel_world_size gbuf_local_numel padded)))))"

text \<open>
  \<^verbatim>\<open>dst.copy_(src)\<close> on one-dimensional tensors: the source must have the length of the
  destination, or one element, which is then broadcast.
\<close>

definition copy_tensor :: "'a list \<Rightarrow> 'a list \<Rightarrow> error + 'a list" where
  "copy_tensor dst src =
     (if length src = length dst then Inr src
      else if length src = 1 then Inr (replicate (length dst) (hd src))
      else Inl RuntimeError)"

text \<open>
  Writing the new values of the tensor under \<open>key\<close> of
  \<^verbatim>\<open>{"param": main_param, **optim_state}\<close>: a key of the state is a tensor of the state,
  otherwise the key is \<^verbatim>\<open>param\<close> and the tensor is the main parameter.
\<close>

definition write_tensor :: "('m, 'a) optimizer \<Rightarrow> 'm \<Rightarrow> string \<Rightarrow> 'a list \<Rightarrow> ('m, 'a) optimizer" where
  "write_tensor opt main_param key v =
     (if key \<in> fst ` set (state opt main_param)
      then opt\<lparr>state := (state opt)(main_param := AList.update key v (state opt main_param))\<rparr>
      else opt\<lparr>main_data := (main_data opt)(main_param := v)\<rparr>)"

text \<open>
  The loop \<^verbatim>\<open>for key in dst_tensors: dst_tensors[key].copy_(src_tensors[key])\<close>; a key
  that the source lacks raises \<^verbatim>\<open>KeyError\<close>.
\<close>

fun copy_keys ::
  "(string \<times> 'a list) list \<Rightarrow> (string \<times> 'a list) list \<Rightarrow> 'm \<Rightarrow> ('m, 'a) optimizer
   \<Rightarrow> error + ('m, 'a) optimizer" where
  "copy_keys [] src_tensors main_param opt = Inr opt"
| "copy_keys ((key, dst) # rest) src_tensors main_param opt =
     (case map_of src_tensors key of
        None \<Rightarrow> Inl KeyError
      | Some src \<Rightarrow>
          (case copy_tensor dst src of
             Inl e \<Rightarrow> Inl e
           | Inr v \<Rightarrow> copy_keys rest src_tensors main_param (write_tensor opt main_param key v)))"

text \<open>An element of a loaded bucket state: the loaded tensors and the padding flag.\<close>

record 'a loaded_elem =
  loaded_tensors :: "(string \<times> 'a list) list"
  loaded_padding :: bool

text \<open>The loop over \<^verbatim>\<open>zip(bucket_state, gbuf_range_map["param_map"].items())\<close>.\<close>

fun load_elems ::
  "('p \<rightharpoonup> nat \<times> nat) \<Rightarrow> 'a loaded_elem list \<Rightarrow> ('p \<times> param_ranges) list
   \<Rightarrow> ('m, 'a) optimizer \<Rightarrow> error + ('m, 'a) optimizer" where
  "load_elems idx (src # srcs) ((model_param, param_range_map) # rest) opt =
     (case main_param_of idx opt model_param of
        Inl e \<Rightarrow> Inl e
      | Inr main_param \<Rightarrow>
          (case copy_keys (param_and_state opt main_param) (loaded_tensors src) main_param opt of
             Inl e \<Rightarrow> Inl e
           | Inr opt' \<Rightarrow> load_elems idx srcs rest opt'))"
| "load_elems idx srcs param_map opt = Inr opt"

text \<open>
  \<^verbatim>\<open>load_parameter_state_from_fs_bucket_space\<close> for one bucket: the padding elements are
  dropped, the number of the others must be the number of owned parameters.
\<close>

definition load_parameter_state_from_fs_bucket_space ::
  "('p \<rightharpoonup> nat \<times> nat) \<Rightarrow> 'a loaded_elem list \<Rightarrow> ('p \<times> param_ranges) list
   \<Rightarrow> ('m, 'a) optimizer \<Rightarrow> error + ('m, 'a) optimizer" where
  "load_parameter_state_from_fs_bucket_space idx bucket_state param_map opt =
     (let bucket_state = filter (\<lambda>bucket_state_elem. \<not> loaded_padding bucket_state_elem)
                                bucket_state
      in if length bucket_state \<noteq> length param_map then
           Inl (AssertionError ''len(bucket_state) == len(gbuf_range_map[param_map])'')
         else load_elems idx bucket_state param_map opt)"

text \<open>
  What the checkpoint holds of an emitted element and gives back on load: the data of every
  sharded tensor under its key, and the padding flag.
\<close>

definition stored_elem :: "'a sharded_elem \<Rightarrow> 'a loaded_elem" where
  "stored_elem elem =
     \<lparr>loaded_tensors = map (\<lambda>(key, t). (key, st_data t)) (sharded_tensors elem),
      loaded_padding = is_padding elem\<rparr>"

section \<open>The encoding fully sharded in model space\<close>

text \<open>
  A \<^verbatim>\<open>replica_id\<close> is an integer or a tuple of integers; \<^verbatim>\<open>len\<close> of an integer raises
  \<^verbatim>\<open>TypeError\<close>.
\<close>

datatype replica = ReplicaInt int | ReplicaTuple "int list"

text \<open>
  A \<^verbatim>\<open>ShardedTensor\<close> or \<^verbatim>\<open>ShardedTensorFactory\<close> (\<open>is_factory\<close>) of the model's
  sharded state dict, and the one that \<^verbatim>\<open>dataclasses.replace\<close> builds from it for a tensor
  of the optimizer: \<^verbatim>\<open>data\<close> is the model parameter in the first and the values of the tensor
  in the second; for a factory \<^verbatim>\<open>dtype\<close> is not replaced; the fields that are not replaced are in
  \<open>other_fields\<close>.
\<close>

record ('v, 'dt, 'x) sharded_base =
  sh_key :: string
  sh_data :: 'v
  sh_dtype :: "'dt option"
  sh_flattened_range :: "(int \<times> int) option"
  sh_replica_id :: replica
  is_factory :: bool
  other_fields :: 'x

text \<open>
  The loop \<^verbatim>\<open>for sh_base in nested_values(model_sharded_state_dict)\<close> that fills
  \<^verbatim>\<open>param_to_sharded_metadata\<close>.
\<close>

definition param_to_sharded_metadata ::
  "('p, 'dt, 'x) sharded_base list \<Rightarrow> ('p \<rightharpoonup> ('p, 'dt, 'x) sharded_base)" where
  "param_to_sharded_metadata model_sharded_state_dict =
     fold (\<lambda>sh_base m. m(sh_data sh_base \<mapsto> sh_base)) model_sharded_state_dict Map.empty"

text \<open>
  The state of a main parameter as \<^verbatim>\<open>_get_param_state_sharded_tensors\<close> reads it: on the
  FSDP code path while loading, \<^verbatim>\<open>exp_avg\<close> and \<^verbatim>\<open>exp_avg_sq\<close> are first set to
  \<^verbatim>\<open>torch.empty_like(main_param)\<close>.
\<close>

definition optim_state_for ::
  "bool \<Rightarrow> 'a \<Rightarrow> ('m, 'a) optimizer \<Rightarrow> 'm \<Rightarrow> (string \<times> 'a list) list" where
  "optim_state_for prepopulate uninit opt main_param =
     (if prepopulate then
        AList.update ''exp_avg_sq'' (replicate (length (main_data opt main_param)) uninit)
          (AList.update ''exp_avg'' (replicate (length (main_data opt main_param)) uninit)
             (state opt main_param))
      else state opt main_param)"

text \<open>
  The loop \<^verbatim>\<open>for state_key, state_ten in tensors.items()\<close>: the metadata with \<^verbatim>\<open>key\<close>,
  \<^verbatim>\<open>data\<close>, \<^verbatim>\<open>dtype\<close>, \<^verbatim>\<open>flattened_range\<close> and \<^verbatim>\<open>replica_id\<close> replaced, then
  \<^verbatim>\<open>validate_metadata_integrity\<close>, which is \<open>valid\<close> here and raises when it does not hold.
\<close>

fun replace_tensors ::
  "(('a list, 'dt, 'x) sharded_base \<Rightarrow> bool) \<Rightarrow> ('a list \<Rightarrow> 'dt) \<Rightarrow> ('p, 'dt, 'x) sharded_base
   \<Rightarrow> int \<times> int \<Rightarrow> replica \<Rightarrow> (string \<times> 'a list) list
   \<Rightarrow> error + (string \<times> ('a list, 'dt, 'x) sharded_base) list" where
  "replace_tensors valid dtype_of sharded_metadata item_slice new_replica_id [] = Inr []"
| "replace_tensors valid dtype_of sharded_metadata item_slice new_replica_id
     ((state_key, state_ten) # rest) =
     (let replaced =
            \<lparr>sh_key = ''optimizer.state'' @ ''.'' @ state_key @ ''.'' @ sh_key sharded_metadata,
             sh_data = state_ten,
             sh_dtype = (if is_factory sharded_metadata then sh_dtype sharded_metadata
                         else Some (dtype_of state_ten)),
             sh_flattened_range = Some item_slice,
             sh_replica_id = new_replica_id,
             is_factory = is_factory sharded_metadata,
             other_fields = other_fields sharded_metadata\<rparr>
      in if \<not> valid replaced then Inl (CheckpointingException ''validate_metadata_integrity'')
         else
           (case replace_tensors valid dtype_of sharded_metadata item_slice new_replica_id rest of
              Inl e \<Rightarrow> Inl e
            | Inr ts \<Rightarrow> Inr ((state_key, replaced) # ts)))"

text \<open>
  \<^verbatim>\<open>_get_param_state_sharded_tensors\<close>. The tensors are
  \<^verbatim>\<open>{"fp32_param": main_param, **optim_state}\<close>; a parameter without metadata raises
  \<^verbatim>\<open>ValueError\<close>; the \<^verbatim>\<open>replica_id\<close> must have three coordinates, and the new one is
  \<^verbatim>\<open>(*replica_id[:2], 0)\<close>.
\<close>

definition get_param_state_sharded_tensors ::
  "(('a list, 'dt, 'x) sharded_base \<Rightarrow> bool) \<Rightarrow> ('a list \<Rightarrow> 'dt) \<Rightarrow> bool \<Rightarrow> 'a
   \<Rightarrow> ('p \<rightharpoonup> ('p, 'dt, 'x) sharded_base) \<Rightarrow> ('m, 'a) optimizer \<Rightarrow> 'p \<Rightarrow> 'm \<Rightarrow> int \<times> int
   \<Rightarrow> error + (string \<times> ('a list, 'dt, 'x) sharded_base) list" where
  "get_param_state_sharded_tensors valid dtype_of prepopulate uninit metadata opt
     model_param main_param item_slice =
     (let optim_state = optim_state_for prepopulate uninit opt main_param;
          state_tensors = fold (\<lambda>(k, v). AList.update k v) optim_state
                            [(''fp32_param'', main_data opt main_param)]
      in case metadata model_param of
           None \<Rightarrow> Inl (ValueError ''Model param not in model_sharded_state_dict'')
         | Some sharded_metadata \<Rightarrow>
             (case sh_replica_id sharded_metadata of
                ReplicaInt i \<Rightarrow> Inl (TypeError ''object of type int has no len()'')
              | ReplicaTuple coords \<Rightarrow>
                  (if length coords \<noteq> 3 then
                     Inl (AssertionError ''Expected replica_id format (PP, TP, DP)'')
                   else replace_tensors valid dtype_of sharded_metadata item_slice
                          (ReplicaTuple (take 2 coords @ [0])) state_tensors)))"

text \<open>
  The locally owned parameters with their ranges, in the order of the nested loops over
  \<^verbatim>\<open>self.gbuf_ranges\<close>.
\<close>

definition owned_items :: "('d, 'p) gbuf_range_map list \<Rightarrow> ('p \<times> param_ranges) list" where
  "owned_items gbuf_ranges =
     concat (map (\<lambda>gbuf_range_map.
       concat (map (\<lambda>(dtype, gbuf_range_map_for_all_buckets).
         concat gbuf_range_map_for_all_buckets) gbuf_range_map)) gbuf_ranges)"

text \<open>
  \<^verbatim>\<open>sharded_param_state_fs_model_space\<close> without the FSDP code path: the entry
  \<open>param_idx\<close> of the result is the entry of the \<open>param_idx\<close>-th owned parameter.
\<close>

fun model_space_entries ::
  "(('a list, 'dt, 'x) sharded_base \<Rightarrow> bool) \<Rightarrow> ('a list \<Rightarrow> 'dt) \<Rightarrow> 'a
   \<Rightarrow> ('p \<rightharpoonup> ('p, 'dt, 'x) sharded_base) \<Rightarrow> ('p \<rightharpoonup> nat \<times> nat) \<Rightarrow> ('m, 'a) optimizer
   \<Rightarrow> ('p \<times> param_ranges) list
   \<Rightarrow> error + (string \<times> ('a list, 'dt, 'x) sharded_base) list list" where
  "model_space_entries valid dtype_of uninit metadata idx opt [] = Inr []"
| "model_space_entries valid dtype_of uninit metadata idx opt
     ((model_param, param_range_map) # rest) =
     (case main_param_of idx opt model_param of
        Inl e \<Rightarrow> Inl e
      | Inr main_param \<Rightarrow>
          (let param_range = param param_range_map;
               item_slice = (start_r param_range, end_r param_range)
           in case get_param_state_sharded_tensors valid dtype_of False uninit metadata opt
                     model_param main_param item_slice of
                Inl e \<Rightarrow> Inl e
              | Inr sharded \<Rightarrow>
                  (case model_space_entries valid dtype_of uninit metadata idx opt rest of
                     Inl e \<Rightarrow> Inl e
                   | Inr entries \<Rightarrow> Inr (sharded # entries))))"

definition sharded_param_state_fs_model_space ::
  "(('a list, 'dt, 'x) sharded_base \<Rightarrow> bool) \<Rightarrow> ('a list \<Rightarrow> 'dt) \<Rightarrow> 'a
   \<Rightarrow> ('p, 'dt, 'x) sharded_base list \<Rightarrow> ('p \<rightharpoonup> nat \<times> nat) \<Rightarrow> ('m, 'a) optimizer
   \<Rightarrow> ('d, 'p) gbuf_range_map list
   \<Rightarrow> error + (string \<times> ('a list, 'dt, 'x) sharded_base) list list" where
  "sharded_param_state_fs_model_space valid dtype_of uninit model_sharded_state_dict idx opt
     gbuf_ranges =
     model_space_entries valid dtype_of uninit
       (param_to_sharded_metadata model_sharded_state_dict) idx opt (owned_items gbuf_ranges)"

section \<open>Loading the state gathered on rank 0\<close>

text \<open>
  The entry \<^verbatim>\<open>state_dict[gbuf_idx][dtype]\<close> of the checkpoint that rank 0 holds:
  \<^verbatim>\<open>numel_unpadded\<close> and the world tensors by key.
\<close>

record 'a world_state =
  ckpt_numel_unpadded :: int
  world_tensors :: "(string \<times> 'a list) list"










section \<open>Splitting a checkpoint for float8 parameter buffers\<close>

text \<open>
  What \<^verbatim>\<open>split_state_dict_if_needed\<close> reads of a parameter and of a buffer of
  \<^verbatim>\<open>self.buffers\<close>.
\<close>

record 'd param_info =
  nelement :: int
  is_float8tensor :: bool
  param_dtype :: 'd

record ('d, 'g) buffer_info =
  buffer_params :: "'d param_info list"
  grad_dtype :: 'g
  param_indices :: "int list"

text \<open>
  The checkpoint \<^verbatim>\<open>state_dict\<close>: the entry \<^verbatim>\<open>buckets_coalesced\<close> and, under every other
  key, the dictionary from dtype pairs to world states.
\<close>

record ('d, 'g, 'a) state_dict =
  buckets_coalesced :: bool
  gbuf_states :: "(nat \<times> (('d \<times> 'g) \<times> 'a world_state) list) list"

text \<open>
  The first loop: the indices of the buffers whose first parameter is a float8 tensor, once
  for every dtype of the buffer's entry of \<^verbatim>\<open>self.gbuf_ranges\<close> (\<open>gbuf_dtypes\<close> holds the
  keys of these entries).
\<close>

fun fp8_gbuf_indices ::
  "('d, 'g) buffer_info list \<Rightarrow> nat \<Rightarrow> ('d \<times> 'g) list list \<Rightarrow> error + nat list" where
  "fp8_gbuf_indices buffers gbuf_idx [] = Inr []"
| "fp8_gbuf_indices buffers gbuf_idx (dtypes # rest) =
     (if dtypes = [] then fp8_gbuf_indices buffers (Suc gbuf_idx) rest
      else if \<not> gbuf_idx < length buffers then Inl IndexError
      else if buffer_params (buffers ! gbuf_idx) = [] then Inl IndexError
      else
        (case fp8_gbuf_indices buffers (Suc gbuf_idx) rest of
           Inl e \<Rightarrow> Inl e
         | Inr idxs \<Rightarrow>
             Inr ((if is_float8tensor (hd (buffer_params (buffers ! gbuf_idx)))
                   then replicate (length dtypes) gbuf_idx else []) @ idxs)))"

text \<open>
  The loop that fills \<^verbatim>\<open>dtype_to_gbuf_idx\<close>: a dtype seen twice fails the assertion; a
  dtype whose parameter dtype is \<^verbatim>\<open>torch.uint8\<close> means that the checkpoint is already
  split, which is the result \<open>None\<close>.
\<close>

fun dtype_to_gbuf_idx ::
  "'d \<Rightarrow> (nat \<times> ('d \<times> 'g)) list \<Rightarrow> (('d \<times> 'g) \<times> nat) list
   \<Rightarrow> error + (('d \<times> 'g) \<times> nat) list option" where
  "dtype_to_gbuf_idx uint8 [] m = Inr (Some m)"
| "dtype_to_gbuf_idx uint8 ((key, dtype) # rest) m =
     (if dtype \<in> fst ` set m then Inl (AssertionError ''dtype not in dtype_to_gbuf_idx'')
      else if fst dtype = uint8 then Inr None
      else dtype_to_gbuf_idx uint8 rest (m @ [(dtype, key)]))"

text \<open>
  The loop that copies into \<^verbatim>\<open>new_state_dict\<close> the entries of the buffers that are not
  float8 buffers, under the buffers' present indices.
\<close>

fun non_fp8_entries ::
  "('d, 'g) buffer_info list \<Rightarrow> nat \<Rightarrow> ('d \<times> 'g) list list \<Rightarrow> (('d \<times> 'g) \<times> nat) list
   \<Rightarrow> (nat \<times> (('d \<times> 'g) \<times> 'a world_state) list) list
   \<Rightarrow> (nat \<times> (('d \<times> 'g) \<times> 'a world_state) list) list
   \<Rightarrow> error + (nat \<times> (('d \<times> 'g) \<times> 'a world_state) list) list" where
  "non_fp8_entries buffers gbuf_idx [] d2g old new = Inr new"
| "non_fp8_entries buffers gbuf_idx ([] # rest) d2g old new =
     non_fp8_entries buffers (Suc gbuf_idx) rest d2g old new"
| "non_fp8_entries buffers gbuf_idx ((dtype # dtypes) # rest) d2g old new =
     (if \<not> gbuf_idx < length buffers then Inl IndexError
      else if buffer_params (buffers ! gbuf_idx) = [] then Inl IndexError
      else if \<not> is_float8tensor (hd (buffer_params (buffers ! gbuf_idx))) then
        (case map_of d2g dtype of
           None \<Rightarrow> Inl KeyError
         | Some key \<Rightarrow>
             (case map_of old key of
                None \<Rightarrow> Inl KeyError
              | Some entry \<Rightarrow>
                  non_fp8_entries buffers gbuf_idx (dtypes # rest) d2g old
                    (AList.update gbuf_idx entry new)))
      else non_fp8_entries buffers gbuf_idx (dtypes # rest) d2g old new)"

text \<open>
  The index of the last buffer whose dtype pair is \<^verbatim>\<open>non_fp8_param_and_grad_dtype\<close>.
\<close>

fun find_non_fp8_gbuf_idx ::
  "('d \<times> 'g) \<Rightarrow> nat \<Rightarrow> ('d \<times> 'g) list list \<Rightarrow> nat option \<Rightarrow> nat option" where
  "find_non_fp8_gbuf_idx wanted gbuf_idx [] found = found"
| "find_non_fp8_gbuf_idx wanted gbuf_idx (dtypes # rest) found =
     find_non_fp8_gbuf_idx wanted (Suc gbuf_idx) rest
       (if wanted \<in> set dtypes then Some gbuf_idx else found)"

text \<open>
  The two loops that fill \<^verbatim>\<open>index_to_fp8_map\<close>, each with the assertion that the index is
  new.
\<close>

fun index_to_fp8_map ::
  "bool \<Rightarrow> int list \<Rightarrow> (int \<times> bool) list \<Rightarrow> error + (int \<times> bool) list" where
  "index_to_fp8_map flag [] m = Inr m"
| "index_to_fp8_map flag (index # rest) m =
     (if index \<in> fst ` set m then Inl (AssertionError ''index not in index_to_fp8_map'')
      else index_to_fp8_map flag rest (m @ [(index, flag)]))"

text \<open>
  The flags of one float8 buffer and its companion buffer: the index map, the assertions on
  the smallest and the largest index (\<^verbatim>\<open>min\<close> of an empty list raises \<^verbatim>\<open>ValueError\<close>), and
  the loop \<^verbatim>\<open>for i in range(len(param_indices)): fp8_flag.append(index_to_fp8_map[i])\<close>.
  The list is named \<^verbatim>\<open>fp8_flags\<close>; \<^verbatim>\<open>fp8_flag\<close> is the variable of a later loop of the
  function, not yet bound here, so that the first turn of the loop raises
  \<^verbatim>\<open>UnboundLocalError\<close> and \<^verbatim>\<open>fp8_flags\<close> is returned only when the loop has no turn.
\<close>

definition build_fp8_flags :: "int list \<Rightarrow> int list \<Rightarrow> error + bool list" where
  "build_fp8_flags fp8_param_indices non_fp8_param_indices =
     (case index_to_fp8_map True fp8_param_indices [] of
        Inl e \<Rightarrow> Inl e
      | Inr m1 \<Rightarrow>
          (case index_to_fp8_map False non_fp8_param_indices m1 of
             Inl e \<Rightarrow> Inl e
           | Inr m \<Rightarrow>
               (let all_indices = fp8_param_indices @ non_fp8_param_indices
                in if all_indices = [] then
                     Inl (ValueError ''min() arg is an empty sequence'')
                   else if Min (set all_indices) \<noteq> 0 then
                     Inl (AssertionError ''min(param_indices) == 0'')
                   else if Max (set all_indices) \<noteq> int (length all_indices) - 1 then
                     Inl (AssertionError ''max(param_indices) == len(param_indices) - 1'')
                   else if [0 ..< length all_indices] \<noteq> [] then
                     Inl (UnboundLocalError ''fp8_flag'')
                   else Inr [])))"

text \<open>
  The loop over \<^verbatim>\<open>fp8_flags[::-1]\<close> that builds \<^verbatim>\<open>offsets\<close>, \<^verbatim>\<open>fp8_offsets\<close> and
  \<^verbatim>\<open>non_fp8_offsets\<close>; the two indices count down from the last parameter of each buffer.
\<close>

fun walk_offsets ::
  "bool list \<Rightarrow> 'd param_info list \<Rightarrow> 'd param_info list \<Rightarrow> int \<Rightarrow> int
   \<Rightarrow> int list \<Rightarrow> int list \<Rightarrow> int list \<Rightarrow> error + int list \<times> int list \<times> int list" where
  "walk_offsets [] fp8_params non_fp8_params fp8_idx non_fp8_idx offsets fp8_offsets
     non_fp8_offsets = Inr (offsets, fp8_offsets, non_fp8_offsets)"
| "walk_offsets (fp8_flag # rest) fp8_params non_fp8_params fp8_idx non_fp8_idx offsets
     fp8_offsets non_fp8_offsets =
     (if fp8_flag then
        (case py_index fp8_params fp8_idx of
           Inl e \<Rightarrow> Inl e
         | Inr p \<Rightarrow>
             walk_offsets rest fp8_params non_fp8_params (fp8_idx - 1) non_fp8_idx
               (offsets @ [last offsets + nelement p])
               (fp8_offsets @ [last fp8_offsets + nelement p]) non_fp8_offsets)
      else
        (case py_index non_fp8_params non_fp8_idx of
           Inl e \<Rightarrow> Inl e
         | Inr p \<Rightarrow>
             walk_offsets rest fp8_params non_fp8_params fp8_idx (non_fp8_idx - 1)
               (offsets @ [last offsets + nelement p])
               fp8_offsets (non_fp8_offsets @ [last non_fp8_offsets + nelement p])))"

text \<open>\<^verbatim>\<open>dst[a:b].copy_(src)\<close>: the slice of the destination is overwritten in place.\<close>

definition copy_into_slice :: "'a list \<Rightarrow> int \<Rightarrow> int \<Rightarrow> 'a list \<Rightarrow> error + 'a list" where
  "copy_into_slice dst a b src =
     (let n = int (length dst); lo = py_clamp n a; hi = max lo (py_clamp n b)
      in case copy_tensor (take (hi - lo) (drop lo dst)) src of
           Inl e \<Rightarrow> Inl e
         | Inr v \<Rightarrow> Inr (take lo dst @ v @ drop hi dst))"

text \<open>
  The loop \<^verbatim>\<open>for i in range(len(offsets) - 1)\<close> that routes every segment of the coalesced
  tensor to one of the two new tensors; the flag of the segment \<open>i\<close> is
  \<^verbatim>\<open>fp8_flags[-(i + 1)]\<close>, the head of the reversed list.
\<close>

fun split_segments ::
  "bool list \<Rightarrow> nat \<Rightarrow> int list \<Rightarrow> int list \<Rightarrow> int list \<Rightarrow> nat \<Rightarrow> nat \<Rightarrow> 'a list
   \<Rightarrow> 'a list \<Rightarrow> 'a list \<Rightarrow> error + 'a list \<times> 'a list" where
  "split_segments [] i offsets fp8_offsets non_fp8_offsets fp8_idx non_fp8_idx tensor
     fp8_tensor non_fp8_tensor = Inr (fp8_tensor, non_fp8_tensor)"
| "split_segments (fp8_flag # rest) i offsets fp8_offsets non_fp8_offsets fp8_idx non_fp8_idx
     tensor fp8_tensor non_fp8_tensor =
     (let segment = py_slice tensor (offsets ! i) (offsets ! Suc i)
      in if fp8_flag then
           (case copy_into_slice fp8_tensor (fp8_offsets ! fp8_idx)
                   (fp8_offsets ! Suc fp8_idx) segment of
              Inl e \<Rightarrow> Inl e
            | Inr fp8_tensor' \<Rightarrow>
                split_segments rest (Suc i) offsets fp8_offsets non_fp8_offsets (Suc fp8_idx)
                  non_fp8_idx tensor fp8_tensor' non_fp8_tensor)
         else
           (case copy_into_slice non_fp8_tensor (non_fp8_offsets ! non_fp8_idx)
                   (non_fp8_offsets ! Suc non_fp8_idx) segment of
              Inl e \<Rightarrow> Inl e
            | Inr non_fp8_tensor' \<Rightarrow>
                split_segments rest (Suc i) offsets fp8_offsets non_fp8_offsets fp8_idx
                  (Suc non_fp8_idx) tensor fp8_tensor non_fp8_tensor'))"

text \<open>
  The loop \<^verbatim>\<open>for key in ['param', 'exp_avg', 'exp_avg_sq']\<close>: the tensor of the key is
  split into two tensors created by \<^verbatim>\<open>torch.empty\<close>.
\<close>

fun split_keys ::
  "'a \<Rightarrow> bool list \<Rightarrow> int list \<Rightarrow> int list \<Rightarrow> int list \<Rightarrow> (string \<times> 'a list) list
   \<Rightarrow> string list \<Rightarrow> error + (string \<times> 'a list) list \<times> (string \<times> 'a list) list" where
  "split_keys uninit rev_flags offsets fp8_offsets non_fp8_offsets old [] = Inr ([], [])"
| "split_keys uninit rev_flags offsets fp8_offsets non_fp8_offsets old (key # keys) =
     (case map_of old key of
        None \<Rightarrow> Inl KeyError
      | Some tensor \<Rightarrow>
          (if last fp8_offsets < 0 \<or> last non_fp8_offsets < 0 then Inl RuntimeError
           else
             (case split_segments rev_flags 0 offsets fp8_offsets non_fp8_offsets 0 0 tensor
                     (replicate (nat (last fp8_offsets)) uninit)
                     (replicate (nat (last non_fp8_offsets)) uninit) of
                Inl e \<Rightarrow> Inl e
              | Inr (fp8_tensor, non_fp8_tensor) \<Rightarrow>
                  (case split_keys uninit rev_flags offsets fp8_offsets non_fp8_offsets old
                          keys of
                     Inl e \<Rightarrow> Inl e
                   | Inr (fp8_state_dict, non_fp8_state_dict) \<Rightarrow>
                       Inr ((key, fp8_tensor) # fp8_state_dict,
                            (key, non_fp8_tensor) # non_fp8_state_dict)))))"

text \<open>
  The body of the loop \<^verbatim>\<open>for fp8_gbuf_idx in fp8_gbuf_indices\<close>. The tensors to split are
  read from \<^verbatim>\<open>state_dict[non_fp8_gbuf_idx]\<close> and the two new states are stored in
  \<^verbatim>\<open>new_state_dict\<close>.
\<close>

definition split_one ::
  "'a \<Rightarrow> 'd \<Rightarrow> ('d, 'g) buffer_info list \<Rightarrow> ('d \<times> 'g) list list
   \<Rightarrow> (nat \<times> (('d \<times> 'g) \<times> 'a world_state) list) list \<Rightarrow> nat
   \<Rightarrow> (nat \<times> (('d \<times> 'g) \<times> 'a world_state) list) list
   \<Rightarrow> error + (nat \<times> (('d \<times> 'g) \<times> 'a world_state) list) list" where
  "split_one uninit uint8 buffers gbuf_dtypes old fp8_gbuf_idx new =
     (let fp8_buffer = buffers ! fp8_gbuf_idx;
          non_fp8_param_and_grad_dtype =
            (param_dtype (hd (buffer_params fp8_buffer)), grad_dtype fp8_buffer)
      in case find_non_fp8_gbuf_idx non_fp8_param_and_grad_dtype 0 gbuf_dtypes None of
           None \<Rightarrow> Inl (AssertionError ''non_fp8_gbuf_idx is not None'')
         | Some non_fp8_gbuf_idx \<Rightarrow>
             (if \<not> non_fp8_gbuf_idx < length buffers then Inl IndexError
              else
                (let non_fp8_buffer = buffers ! non_fp8_gbuf_idx
                 in case build_fp8_flags (param_indices fp8_buffer)
                           (param_indices non_fp8_buffer) of
                      Inl e \<Rightarrow> Inl e
                    | Inr fp8_flags \<Rightarrow>
                        (case walk_offsets (rev fp8_flags) (buffer_params fp8_buffer)
                                (buffer_params non_fp8_buffer)
                                (int (length (buffer_params fp8_buffer)) - 1)
                                (int (length (buffer_params non_fp8_buffer)) - 1)
                                [0] [0] [0] of
                           Inl e \<Rightarrow> Inl e
                         | Inr (offsets, fp8_offsets, non_fp8_offsets) \<Rightarrow>
                             (case map_of old non_fp8_gbuf_idx of
                                None \<Rightarrow> Inl KeyError
                              | Some by_dtype \<Rightarrow>
                                  (case map_of by_dtype non_fp8_param_and_grad_dtype of
                                     None \<Rightarrow> Inl KeyError
                                   | Some ws \<Rightarrow>
                                       (case split_keys uninit (rev fp8_flags) offsets
                                               fp8_offsets non_fp8_offsets (world_tensors ws)
                                               [''param'', ''exp_avg'', ''exp_avg_sq''] of
                                          Inl e \<Rightarrow> Inl e
                                        | Inr (fp8_state_dict, non_fp8_state_dict) \<Rightarrow>
                                            (case map_of new non_fp8_gbuf_idx of
                                               None \<Rightarrow> Inl KeyError
                                             | Some new_by_dtype \<Rightarrow>
                                                 Inr (AList.update non_fp8_gbuf_idx
                                                        (AList.update
                                                           non_fp8_param_and_grad_dtype
                                                           \<lparr>ckpt_numel_unpadded =
                                                              last non_fp8_offsets,
                                                            world_tensors = non_fp8_state_dict\<rparr>
                                                           new_by_dtype)
                                                        (AList.update fp8_gbuf_idx
                                                           [((uint8, grad_dtype fp8_buffer),
                                                             \<lparr>ckpt_numel_unpadded =
                                                                last fp8_offsets,
                                                              world_tensors = fp8_state_dict\<rparr>)]
                                                           new))))))))))"

fun split_all ::
  "'a \<Rightarrow> 'd \<Rightarrow> ('d, 'g) buffer_info list \<Rightarrow> ('d \<times> 'g) list list
   \<Rightarrow> (nat \<times> (('d \<times> 'g) \<times> 'a world_state) list) list \<Rightarrow> nat list
   \<Rightarrow> (nat \<times> (('d \<times> 'g) \<times> 'a world_state) list) list
   \<Rightarrow> error + (nat \<times> (('d \<times> 'g) \<times> 'a world_state) list) list" where
  "split_all uninit uint8 buffers gbuf_dtypes old [] new = Inr new"
| "split_all uninit uint8 buffers gbuf_dtypes old (fp8_gbuf_idx # rest) new =
     (case split_one uninit uint8 buffers gbuf_dtypes old fp8_gbuf_idx new of
        Inl e \<Rightarrow> Inl e
      | Inr new' \<Rightarrow> split_all uninit uint8 buffers gbuf_dtypes old rest new')"

text \<open>
  \<^verbatim>\<open>split_state_dict_if_needed\<close>; the result is the state dict after the call. Without
  float8 buffers, or with a checkpoint that is already split, the state dict is unchanged.
\<close>

definition split_state_dict_if_needed ::
  "'a \<Rightarrow> 'd \<Rightarrow> ('d, 'g) buffer_info list \<Rightarrow> ('d \<times> 'g) list list \<Rightarrow> ('d, 'g, 'a) state_dict
   \<Rightarrow> error + ('d, 'g, 'a) state_dict" where
  "split_state_dict_if_needed uninit uint8 buffers gbuf_dtypes sd =
     (case fp8_gbuf_indices buffers 0 gbuf_dtypes of
        Inl e \<Rightarrow> Inl e
      | Inr fp8_idxs \<Rightarrow>
          (if fp8_idxs = [] then Inr sd
           else
             (case dtype_to_gbuf_idx uint8
                     (concat (map (\<lambda>(key, by_dtype). map (\<lambda>(dtype, ws). (key, dtype)) by_dtype)
                                  (gbuf_states sd))) [] of
                Inl e \<Rightarrow> Inl e
              | Inr None \<Rightarrow> Inr sd
              | Inr (Some d2g) \<Rightarrow>
                  (case non_fp8_entries buffers 0 gbuf_dtypes d2g (gbuf_states sd) [] of
                     Inl e \<Rightarrow> Inl e
                   | Inr new \<Rightarrow>
                       (case split_all uninit uint8 buffers gbuf_dtypes (gbuf_states sd)
                               fp8_idxs new of
                          Inl e \<Rightarrow> Inl e
                        | Inr new' \<Rightarrow>
                            Inr \<lparr>buckets_coalesced = buckets_coalesced sd,
                                 gbuf_states = new'\<rparr>)))))"

section \<open>The padding pass, in one pass\<close>

text \<open>
  For the proofs: the bucket state with the paddings between its elements, built in one pass
  (\<open>weave\<close>); elements in increasing order of their local ranges (\<open>ordered\<close>); elements
  each of which starts where the one before ends (\<open>chained\<close>); and the number of places
  where two consecutive elements do not meet (\<open>gaps\<close>).
\<close>

fun weave :: "'a \<Rightarrow> 'a bucket_elem list \<Rightarrow> 'a bucket_elem list" where
  "weave uninit (cur # next # rest) =
     (if gbuf_local_start next \<noteq> gbuf_local_end cur then
        cur # \<lparr>tensors = map (\<lambda>(k, v). (k, replicate (nat (gbuf_local_start next
                                                             - gbuf_local_end cur)) uninit))
                             (tensors cur),
                gbuf_local_start = gbuf_local_end cur,
                gbuf_local_end = gbuf_local_start next,
                padding = Some True\<rparr> # weave uninit (next # rest)
      else cur # weave uninit (next # rest))"
| "weave uninit bucket_state = bucket_state"

fun ordered :: "'a bucket_elem list \<Rightarrow> bool" where
  "ordered (cur # next # rest) =
     (gbuf_local_end cur \<le> gbuf_local_start next \<and> ordered (next # rest))"
| "ordered bucket_state = True"

fun chained :: "'a bucket_elem list \<Rightarrow> bool" where
  "chained (cur # next # rest) =
     (gbuf_local_start next = gbuf_local_end cur \<and> chained (next # rest))"
| "chained bucket_state = True"

fun gaps :: "'a bucket_elem list \<Rightarrow> nat" where
  "gaps (cur # next # rest) =
     (if gbuf_local_start next \<noteq> gbuf_local_end cur then Suc (gaps (next # rest))
      else gaps (next # rest))"
| "gaps bucket_state = 0"

section \<open>Properties of the parameter range map\<close>

lemma build_keys_mem:
  "(k, v) \<in> set (build_model_gbuf_param_range_map m g off) \<Longrightarrow> k \<in> fst ` set m"
proof (induction m)
  case Nil
  then show ?case by simp
next
  case (Cons a m)
  obtain p ws we b where a: "a = (p, ws, we, b)" by (cases a) auto
  from Cons.prems have "k = p \<or> (k, v) \<in> set (build_model_gbuf_param_range_map m g off)"
    unfolding a by (auto simp add: Let_def split: if_splits)
  with Cons.IH show ?case unfolding a by auto
qed

lemma build_keys:
  "k \<in> fst ` set (build_model_gbuf_param_range_map m g off) \<Longrightarrow> k \<in> fst ` set m"
  using build_keys_mem by fastforce

lemma build_map_of:
  assumes "distinct (map fst m)" "(p, ws, we, b) \<in> set m"
  shows "map_of (build_model_gbuf_param_range_map m g off) p =
     (if min (size_r g) (we - start_r g) > max 0 (ws - start_r g) then
        Some \<lparr>gbuf_world = Range_new (max 0 (ws - start_r g) + start_r g)
                  (max 0 (ws - start_r g) + start_r g
                   + (min (size_r g) (we - start_r g) - max 0 (ws - start_r g))),
              gbuf_world_in_bucket = Range_new (max 0 (ws - start_r g) + start_r g - off)
                  (max 0 (ws - start_r g) + start_r g
                   + (min (size_r g) (we - start_r g) - max 0 (ws - start_r g)) - off),
              gbuf_local = Range_new (max 0 (ws - start_r g)) (min (size_r g) (we - start_r g)),
              param = Range_new (max 0 (start_r g - ws))
                  (max 0 (start_r g - ws)
                   + (min (size_r g) (we - start_r g) - max 0 (ws - start_r g)))\<rparr>
      else None)"
  using assms
proof (induction m)
  case Nil
  then show ?case by simp
next
  case (Cons a m)
  obtain p' ws' we' b' where a: "a = (p', ws', we', b')" by (cases a) auto
  show ?case
  proof (cases "p' = p")
    case True
    with Cons.prems a have eq: "ws' = ws" "we' = we"
      by (auto simp: image_iff)
    have notin: "p \<notin> fst ` set (build_model_gbuf_param_range_map m g off)"
      using build_keys[of p m g off] Cons.prems a True by auto
    then have "map_of (build_model_gbuf_param_range_map m g off) p = None"
      by (simp add: map_of_eq_None_iff)
    then show ?thesis using a True eq
      by (simp add: Let_def Range_new_def normalize_r_def)
  next
    case False
    with Cons.prems a have "(p, ws, we, b) \<in> set m" "distinct (map fst m)" by auto
    from Cons.IH[OF this(2) this(1)] show ?thesis using a False
      by (simp add: Let_def)
  qed
qed

section \<open>Properties of the partition\<close>

lemma positions_range_of:
  "positions (gbuf_world_range_of S m off r) = {off + int r * m ..< off + min S (int r * m + m)}"
  by (auto simp: positions_def gbuf_world_range_of_def Range_new_def Let_def)

lemma chunk_index_unique:
  fixes m :: int
  assumes "int r * m \<le> y" "y < int r * m + m" "int q * m \<le> y" "y < int q * m + m"
  shows "r = q"
proof -
  have mpos: "0 < m" using assms by linarith
  have "y div m = int r"
    by (rule int_div_pos_eq [of y m "int r" "y - int r * m"]) (use assms(1,2) in \<open>simp_all add: algebra_simps\<close>)
  moreover have "y div m = int q"
    by (rule int_div_pos_eq [of y m "int q" "y - int q * m"]) (use assms(3,4) in \<open>simp_all add: algebra_simps\<close>)
  ultimately show ?thesis by simp
qed

lemma chunk_upper:
  fixes m :: int
  assumes "0 \<le> m" "r < nat W"
  shows "min (W * m) (int r * m + m) = int r * m + m"
proof -
  have "int r + 1 \<le> W" using assms(2) by linarith
  then have "(int r + 1) * m \<le> W * m" using assms(1) by (rule mult_right_mono)
  then show ?thesis by (simp add: algebra_simps)
qed

lemma all_ranges_nth:
  "r < nat W \<Longrightarrow> gbuf_world_all_ranges S W off ! r = gbuf_world_range_of S (S div W) off r"
  by (simp add: gbuf_world_all_ranges_def)

lemma union_chunks:
  fixes m :: int
  assumes "0 < W"
  shows "(\<Union>r<nat W. {off + int r * m ..< off + min (W * m) (int r * m + m)}) = {off ..< off + W * m}"
proof (cases "0 < m")
  case False
  then have "W * m \<le> 0" using assms by (simp add: mult_le_0_iff)
  with False show ?thesis by auto
next
  case True
  show ?thesis
  proof (intro equalityI subsetI)
    fix x assume "x \<in> (\<Union>r<nat W. {off + int r * m ..< off + min (W * m) (int r * m + m)})"
    then obtain r where r: "r < nat W" "off + int r * m \<le> x" "x < off + min (W * m) (int r * m + m)"
      by auto
    have "0 \<le> int r * m" using True by simp
    with r have "off \<le> x \<and> x < off + W * m" by linarith
    then show "x \<in> {off ..< off + W * m}" by simp
  next
    fix x assume x: "x \<in> {off ..< off + W * m}"
    define r where "r = nat ((x - off) div m)"
    have d0: "0 \<le> (x - off) div m" using x True by (simp add: pos_imp_zdiv_nonneg_iff)
    have dm: "(x - off) div m * m + (x - off) mod m = x - off" by simp
    have m0: "0 \<le> (x - off) mod m" and m1: "(x - off) mod m < m" using True by simp_all
    have ir: "int r = (x - off) div m" using d0 unfolding r_def by simp
    have lo: "int r * m \<le> x - off" using dm m0 unfolding ir by linarith
    have hi: "x - off < int r * m + m" using dm m1 unfolding ir by linarith
    have d1: "(x - off) div m < W"
    proof (rule ccontr)
      assume "\<not> (x - off) div m < W"
      then have "W \<le> int r" unfolding ir by simp
      then have "W * m \<le> int r * m" using True by (simp add: mult_right_mono)
      with lo x show False by simp
    qed
    have "r < nat W" using d0 d1 unfolding r_def by linarith
    moreover have "x \<in> {off + int r * m ..< off + min (W * m) (int r * m + m)}"
      using lo hi x by auto
    ultimately show "x \<in> (\<Union>r<nat W. {off + int r * m ..< off + min (W * m) (int r * m + m)})"
      by blast
  qed
qed

text \<open>
  Claim C1. For a bucket of size \<open>S\<close> at offset \<open>off\<close> and a world size \<open>W\<close>
  that divides \<open>S\<close>, the partitioner builds \<open>W\<close> ranges; rank \<open>r\<close> owns
  \<open>[off + r * (S div W), off + min S ((r + 1) * (S div W)))\<close>, which is also the range its
  parameter map is built from; the ranges are pairwise disjoint and their union is
  \<open>[off, off + S)\<close>. When \<open>W\<close> does not divide \<open>S\<close> the construction fails with the
  assertion on the bucket's size.
\<close>

theorem partition_shards:
  assumes "0 < W"
  shows "(S mod W = 0 \<longrightarrow>
            length (gbuf_world_all_ranges S W off) = nat W
          \<and> (\<forall>r < nat W. gbuf_world_all_ranges S W off ! r =
                 Range_new (off + int r * (S div W)) (off + min S ((int r + 1) * (S div W))))
          \<and> (\<forall>r < nat W. \<forall>q < nat W. r \<noteq> q \<longrightarrow>
                 positions (gbuf_world_all_ranges S W off ! r)
                 \<inter> positions (gbuf_world_all_ranges S W off ! q) = {})
          \<and> (\<Union>r < nat W. positions (gbuf_world_all_ranges S W off ! r)) = {off ..< off + S}
          \<and> (\<forall>r < nat W.
                 build_model_gbuf_range (int r) W
                   \<lparr>grad_data_numel = S, offset = off, numel_unpadded = U\<rparr> pim =
                 Inr (build_model_gbuf_param_range_map pim
                        (gbuf_world_all_ranges S W off ! r) off)))
       \<and> (S mod W \<noteq> 0 \<longrightarrow>
            build_model_gbuf_range rank W
              \<lparr>grad_data_numel = S, offset = off, numel_unpadded = U\<rparr> pim =
            Inl (AssertionError ''Each bucket's buffer size should be divisible by world size''))"
proof (intro conjI impI)
  assume "S mod W \<noteq> 0"
  then show "build_model_gbuf_range rank W
              \<lparr>grad_data_numel = S, offset = off, numel_unpadded = U\<rparr> pim =
            Inl (AssertionError ''Each bucket's buffer size should be divisible by world size'')"
    using assms by (simp add: build_model_gbuf_range_def)
next
  assume d: "S mod W = 0"
  define m where "m = S div W"
  have S: "S = W * m" using d unfolding m_def by auto
  show len: "length (gbuf_world_all_ranges S W off) = nat W"
    by (simp add: gbuf_world_all_ranges_def)
  show "\<forall>r < nat W. gbuf_world_all_ranges S W off ! r =
          Range_new (off + int r * (S div W)) (off + min S ((int r + 1) * (S div W)))"
    by (simp add: all_ranges_nth gbuf_world_range_of_def Let_def algebra_simps)
  have pos: "positions (gbuf_world_all_ranges S W off ! r) =
               {off + int r * m ..< off + min (W * m) (int r * m + m)}" if "r < nat W" for r
    using that all_ranges_nth[OF that, of S off] positions_range_of[of S m off r]
    unfolding m_def[symmetric] S[symmetric] by simp
  show "\<forall>r < nat W. \<forall>q < nat W. r \<noteq> q \<longrightarrow>
          positions (gbuf_world_all_ranges S W off ! r)
          \<inter> positions (gbuf_world_all_ranges S W off ! q) = {}"
  proof (intro allI impI)
    fix r q assume rq: "r < nat W" "q < nat W" "r \<noteq> q"
    show "positions (gbuf_world_all_ranges S W off ! r)
          \<inter> positions (gbuf_world_all_ranges S W off ! q) = {}"
    proof (rule ccontr)
      assume "positions (gbuf_world_all_ranges S W off ! r)
          \<inter> positions (gbuf_world_all_ranges S W off ! q) \<noteq> {}"
      then obtain x where "x \<in> positions (gbuf_world_all_ranges S W off ! r)"
        "x \<in> positions (gbuf_world_all_ranges S W off ! q)" by blast
      then have "int r * m \<le> x - off" "x - off < int r * m + m"
                "int q * m \<le> x - off" "x - off < int q * m + m"
        unfolding pos[OF rq(1)] pos[OF rq(2)] by auto
      then have "r = q" by (rule chunk_index_unique)
      with rq(3) show False by simp
    qed
  qed
  have "(\<Union>r < nat W. positions (gbuf_world_all_ranges S W off ! r)) =
        (\<Union>r < nat W. {off + int r * m ..< off + min (W * m) (int r * m + m)})"
    using pos by auto
  also have "\<dots> = {off ..< off + W * m}" using assms by (rule union_chunks)
  finally show "(\<Union>r < nat W. positions (gbuf_world_all_ranges S W off ! r)) = {off ..< off + S}"
    unfolding S[symmetric] .
  show "\<forall>r < nat W.
          build_model_gbuf_range (int r) W
            \<lparr>grad_data_numel = S, offset = off, numel_unpadded = U\<rparr> pim =
          Inr (build_model_gbuf_param_range_map pim (gbuf_world_all_ranges S W off ! r) off)"
  proof (intro allI impI)
    fix r assume "r < nat W"
    then have "int r < W" by linarith
    then show "build_model_gbuf_range (int r) W
            \<lparr>grad_data_numel = S, offset = off, numel_unpadded = U\<rparr> pim =
          Inr (build_model_gbuf_param_range_map pim (gbuf_world_all_ranges S W off ! r) off)"
      using assms d len by (simp add: build_model_gbuf_range_def py_index_def Let_def)
  qed
qed

text \<open>The theorem at a bucket of 100 elements: four ranks divide it, three do not.\<close>

theorem partition_shards_witness:
  "length (gbuf_world_all_ranges 100 4 7) = nat 4
   \<and> (\<Union>r < nat 4. positions (gbuf_world_all_ranges 100 4 7 ! r)) = {7 ..< 7 + 100}
   \<and> build_model_gbuf_range 0 3 \<lparr>grad_data_numel = 100, offset = 7, numel_unpadded = 100\<rparr>
         [(''w'', 7, 20, 0::nat)] =
       Inl (AssertionError ''Each bucket's buffer size should be divisible by world size'')"
proof -
  have w4: "(0::int) < 4" and w3: "(0::int) < 3" by simp_all
  have d4: "(100::int) mod 4 = 0" and d3: "(100::int) mod 3 \<noteq> 0" by simp_all
  from partition_shards [OF w4, of 100 7 100 "[(''w'', 7, 20, 0::nat)]" 0] d4
  have "length (gbuf_world_all_ranges 100 4 7) = nat 4"
    and "(\<Union>r < nat 4. positions (gbuf_world_all_ranges 100 4 7 ! r)) = {7 ..< 7 + 100}"
    by blast+
  moreover from partition_shards [OF w3, of 100 7 100 "[(''w'', 7, 20, 0::nat)]" 0] d3
  have "build_model_gbuf_range 0 3 \<lparr>grad_data_numel = 100, offset = 7, numel_unpadded = 100\<rparr>
         [(''w'', 7, 20, 0::nat)] =
       Inl (AssertionError ''Each bucket's buffer size should be divisible by world size'')"
    by blast
  ultimately show ?thesis by blast
qed

text \<open>
  Claim C2. A parameter with world range \<open>[ws, we)\<close> whose intersection
  \<open>[ls, le) = [max ws gs, min we ge)\<close> with the shard \<open>[gs, ge)\<close> is not empty gets an entry
  of four ranges of size \<open>le - ls\<close>: \<open>gbuf_world = [ls, le)\<close>, \<open>gbuf_world_in_bucket\<close>
  the same shifted by the bucket's offset, \<open>gbuf_local\<close> the same shifted by the shard's
  start, and \<open>param\<close> starting at \<open>max 0 (gs - ws)\<close>. A parameter whose intersection with
  the shard is empty has no entry.
\<close>

theorem param_range_map_entry:
  assumes "distinct (map fst m)" and "(p, ws, we, b) \<in> set m"
  shows "(max ws gs < min we ge \<longrightarrow>
            map_of (build_model_gbuf_param_range_map m (Range_new gs ge) off) p =
              Some \<lparr>gbuf_world = Range_new (max ws gs) (min we ge),
                    gbuf_world_in_bucket = Range_new (max ws gs - off) (min we ge - off),
                    gbuf_local = Range_new (max ws gs - gs) (min we ge - gs),
                    param = Range_new (max 0 (gs - ws))
                                      (max 0 (gs - ws) + (min we ge - max ws gs))\<rparr>)
       \<and> (\<forall>e. map_of (build_model_gbuf_param_range_map m (Range_new gs ge) off) p = Some e \<longrightarrow>
              size_r (gbuf_world e) = min we ge - max ws gs
            \<and> size_r (gbuf_world_in_bucket e) = min we ge - max ws gs
            \<and> size_r (gbuf_local e) = min we ge - max ws gs
            \<and> size_r (param e) = min we ge - max ws gs
            \<and> positions (gbuf_world e) = {ws ..< we} \<inter> {gs ..< ge})
       \<and> (\<not> max ws gs < min we ge \<longrightarrow>
            map_of (build_model_gbuf_param_range_map m (Range_new gs ge) off) p = None)"
proof -
  have c: "(max 0 (ws - gs) < min (ge - gs) (we - gs)) = (max ws gs < min we ge)"
    by auto
  have s1: "max 0 (ws - gs) + gs = max ws gs" by auto
  have s2: "max 0 (ws - gs) + gs + (min (ge - gs) (we - gs) - max 0 (ws - gs)) = min we ge"
    by auto
  have s3: "max 0 (ws - gs) = max ws gs - gs" by auto
  have s4: "min (ge - gs) (we - gs) = min we ge - gs" by auto
  note e = build_map_of [OF assms, of "Range_new gs ge" off]
  have e': "map_of (build_model_gbuf_param_range_map m (Range_new gs ge) off) p =
     (if max ws gs < min we ge then
        Some \<lparr>gbuf_world = Range_new (max ws gs) (min we ge),
              gbuf_world_in_bucket = Range_new (max ws gs - off) (min we ge - off),
              gbuf_local = Range_new (max ws gs - gs) (min we ge - gs),
              param = Range_new (max 0 (gs - ws))
                                (max 0 (gs - ws) + (min we ge - max ws gs))\<rparr>
      else None)"
    unfolding e by (simp add: Range_new_def) (auto simp: max_def min_def)
  show ?thesis
    unfolding e' by (auto simp: Range_new_def positions_def)
qed

text \<open>The theorem at a shard \<open>[25, 50)\<close>: one parameter overlaps it, the other does not.\<close>

theorem param_range_map_entry_witness:
  "map_of (build_model_gbuf_param_range_map [(''w'', 20, 60, 0::nat), (''v'', 60, 70, 0)]
             (Range_new 25 50) 10) ''w'' =
     Some \<lparr>gbuf_world = Range_new 25 50, gbuf_world_in_bucket = Range_new 15 40,
           gbuf_local = Range_new 0 25, param = Range_new 5 30\<rparr>
   \<and> map_of (build_model_gbuf_param_range_map [(''w'', 20, 60, 0::nat), (''v'', 60, 70, 0)]
             (Range_new 25 50) 10) ''v'' = None"
proof -
  have d: "distinct (map fst [(''w'', 20::int, 60::int, 0::nat), (''v'', 60, 70, 0)])" by simp
  have w: "(''w'', 20::int, 60::int, 0::nat) \<in> set [(''w'', 20, 60, 0), (''v'', 60, 70, 0)]"
    and v: "(''v'', 60::int, 70::int, 0::nat) \<in> set [(''w'', 20, 60, 0), (''v'', 60, 70, 0)]"
    by simp_all
  from param_range_map_entry [OF d w, of 25 50 10] param_range_map_entry [OF d v, of 25 50 10]
  show ?thesis by simp
qed

text \<open>
  The parameter \<open>[90, 110)\<close> in a bucket of 100 elements shared by four ranks: the range
  within the parameter that rank 3 owns is not \<open>[15, 25)\<close>.
\<close>

theorem straddling_within_param_counterexample:
  "map (param \<circ> snd)
     (build_model_gbuf_param_range_map [(''w'', 90, 110, 0::nat)]
        (gbuf_world_all_ranges 100 4 0 ! 3) 0) \<noteq> [Range_new 15 25]"
  by (simp add: gbuf_world_all_ranges_def gbuf_world_range_of_def Range_new_def normalize_r_def
      Let_def eval_nat_numeral)

text \<open>
  Claim C6, amended. For a bucket of size 100 at offset 0 with four ranks and a parameter with
  world range \<open>[90, 110)\<close>, rank 3 (shard \<open>[75, 100)\<close>) gets the entry with
  \<open>gbuf_world = [90, 100)\<close>, \<open>gbuf_local = [15, 25)\<close> and \<open>param = [0, 10)\<close>, the
  first ten elements of the parameter; ranks 0, 1 and 2 get no entry.
\<close>

theorem straddling_parameter:
  "build_model_gbuf_range 3 4 \<lparr>grad_data_numel = 100, offset = 0, numel_unpadded = U\<rparr>
     [(p, 90, 110, b)] =
     Inr [(p, \<lparr>gbuf_world = Range_new 90 100, gbuf_world_in_bucket = Range_new 90 100,
               gbuf_local = Range_new 15 25, param = Range_new 0 10\<rparr>)]
   \<and> gbuf_world_all_ranges 100 4 0 ! 3 = Range_new 75 100
   \<and> build_model_gbuf_range 0 4 \<lparr>grad_data_numel = 100, offset = 0, numel_unpadded = U\<rparr>
       [(p, 90, 110, b)] = Inr []
   \<and> build_model_gbuf_range 1 4 \<lparr>grad_data_numel = 100, offset = 0, numel_unpadded = U\<rparr>
       [(p, 90, 110, b)] = Inr []
   \<and> build_model_gbuf_range 2 4 \<lparr>grad_data_numel = 100, offset = 0, numel_unpadded = U\<rparr>
       [(p, 90, 110, b)] = Inr []"
  by (simp add: build_model_gbuf_range_def py_index_def gbuf_world_all_ranges_def
      gbuf_world_range_of_def Range_new_def normalize_r_def Let_def eval_nat_numeral)

section \<open>Properties of the optimizer group ranges\<close>

lemma world_group_result:
  "world_param_group_map_group rg gi ps w = Inr w' \<Longrightarrow>
   w' p = (if p \<in> set ps then Some gi else w p)"
  by (induction ps arbitrary: w) (auto split: if_splits)

lemma world_group_total:
  "\<forall>p \<in> set ps. rg p \<Longrightarrow> \<exists>w'. world_param_group_map_group rg gi ps w = Inr w'"
  by (induction ps arbitrary: w) auto

lemma world_map_sound:
  "world_param_group_map rg gi gs w = Inr w' \<Longrightarrow> w' p = Some i \<Longrightarrow>
   w p = Some i \<or> (gi \<le> i \<and> i < gi + length gs \<and> p \<in> set (params (gs ! (i - gi))))"
proof (induction gs arbitrary: gi w)
  case Nil
  then show ?case by simp
next
  case (Cons g gs)
  from Cons.prems(1) obtain w1 where
    w1: "world_param_group_map_group rg gi (params g) w = Inr w1"
    and rest: "world_param_group_map rg (Suc gi) gs w1 = Inr w'"
    by (auto split: sum.splits)
  from Cons.IH[OF rest Cons.prems(2)]
  consider "w1 p = Some i"
    | "Suc gi \<le> i" "i < Suc gi + length gs" "p \<in> set (params (gs ! (i - Suc gi)))"
    by blast
  then show ?case
  proof cases
    case 1
    with world_group_result[OF w1, of p] show ?thesis
      by (auto split: if_splits)
  next
    case 2
    then have "i - gi = Suc (i - Suc gi)" by simp
    then have "(g # gs) ! (i - gi) = gs ! (i - Suc gi)"
      by (simp only: nth_Cons_Suc)
    with 2 show ?thesis by auto
  qed
qed

lemma world_map_dom:
  "world_param_group_map rg gi gs w = Inr w' \<Longrightarrow>
   p \<in> dom w \<or> (\<exists>g \<in> set gs. p \<in> set (params g)) \<Longrightarrow> p \<in> dom w'"
proof (induction gs arbitrary: gi w)
  case Nil
  then show ?case by auto
next
  case (Cons g gs)
  from Cons.prems(1) obtain w1 where
    w1: "world_param_group_map_group rg gi (params g) w = Inr w1"
    and rest: "world_param_group_map rg (Suc gi) gs w1 = Inr w'"
    by (auto split: sum.splits)
  have "p \<in> dom w1 \<or> (\<exists>g \<in> set gs. p \<in> set (params g))"
    using Cons.prems(2) world_group_result[OF w1, of p] by (auto split: if_splits)
  from Cons.IH[OF rest this] show ?case .
qed

lemma world_map_total:
  "\<forall>g \<in> set gs. \<forall>p \<in> set (params g). rg p \<Longrightarrow>
   \<exists>w'. world_param_group_map rg gi gs w = Inr w'"
proof (induction gs arbitrary: gi w)
  case Nil
  then show ?case by simp
next
  case (Cons g gs)
  then obtain w1 where "world_param_group_map_group rg gi (params g) w = Inr w1"
    using world_group_total[of "params g" rg gi w] by auto
  with Cons show ?case by auto
qed

lemma assign_length:
  "assign_group_ranges w ps lm gr = Inr (lm', gr') \<Longrightarrow> length gr' = length gr"
  by (induction ps arbitrary: lm gr) (auto simp: Let_def split: option.splits if_splits)

lemma positions_valid_step:
  assumes "positions_valid lm gr" "gi < length gr"
  shows "positions_valid (lm(p \<mapsto> (gi, length (gr ! gi @ [p]) - 1))) (gr[gi := gr ! gi @ [p]])"
  unfolding positions_valid_def
proof (intro allI impI)
  fix q gj ord
  assume h: "(lm(p \<mapsto> (gi, length (gr ! gi @ [p]) - 1))) q = Some (gj, ord)"
  show "gj < length (gr[gi := gr ! gi @ [p]]) \<and>
        ord < length (gr[gi := gr ! gi @ [p]] ! gj) \<and> gr[gi := gr ! gi @ [p]] ! gj ! ord = q"
  proof (cases "q = p")
    case True
    with h have "gj = gi" "ord = length (gr ! gi)" by auto
    with assms(2) True show ?thesis by simp
  next
    case False
    with h have "lm q = Some (gj, ord)" by simp
    with assms(1) have v: "gj < length gr" "ord < length (gr ! gj)" "gr ! gj ! ord = q"
      unfolding positions_valid_def by blast+
    show ?thesis
    proof (cases "gj = gi")
      case True
      with v show ?thesis by (simp add: nth_append)
    next
      case False
      with v show ?thesis by simp
    qed
  qed
qed

lemma assign_valid:
  "assign_group_ranges w ps lm gr = Inr (lm', gr') \<Longrightarrow> positions_valid lm gr \<Longrightarrow>
   positions_valid lm' gr'"
proof (induction ps arbitrary: lm gr)
  case Nil
  then show ?case by simp
next
  case (Cons p ps)
  from Cons.prems(1) obtain gi where gi: "w p = Some gi" "gi < length gr"
    and rest: "assign_group_ranges w ps (lm(p \<mapsto> (gi, length (gr ! gi @ [p]) - 1)))
                 (gr[gi := gr ! gi @ [p]]) = Inr (lm', gr')"
    by (auto simp: Let_def split: option.splits if_splits)
  from Cons.IH[OF rest positions_valid_step[OF Cons.prems(2) gi(2)]] show ?case .
qed

lemma assign_dom:
  "assign_group_ranges w ps lm gr = Inr (lm', gr') \<Longrightarrow> dom lm' = dom lm \<union> set ps"
  by (induction ps arbitrary: lm gr) (auto simp: Let_def split: option.splits if_splits)

lemma assign_content:
  "assign_group_ranges w ps lm gr = Inr (lm', gr') \<Longrightarrow> i < length gr \<Longrightarrow>
   gr' ! i = gr ! i @ filter (\<lambda>p. w p = Some i) ps"
proof (induction ps arbitrary: lm gr)
  case Nil
  then show ?case by simp
next
  case (Cons p ps)
  from Cons.prems(1) obtain gi where gi: "w p = Some gi" "gi < length gr"
    and rest: "assign_group_ranges w ps (lm(p \<mapsto> (gi, length (gr ! gi @ [p]) - 1)))
                 (gr[gi := gr ! gi @ [p]]) = Inr (lm', gr')"
    by (auto simp: Let_def split: option.splits if_splits)
  have "i < length (gr[gi := gr ! gi @ [p]])" using Cons.prems(2) by simp
  from Cons.IH[OF rest this] show ?case using gi Cons.prems(2)
    by (cases "i = gi") auto
qed

lemma assign_total:
  "\<forall>p \<in> set ps. \<exists>i. w p = Some i \<and> i < length gr \<Longrightarrow>
   \<exists>res. assign_group_ranges w ps lm gr = Inr res"
proof (induction ps arbitrary: lm gr)
  case Nil
  then show ?case by simp
next
  case (Cons p ps)
  then obtain gi where gi: "w p = Some gi" "gi < length gr" by auto
  have "\<forall>q \<in> set ps. \<exists>i. w q = Some i \<and> i < length (gr[gi := gr ! gi @ [p]])"
    using Cons.prems by simp
  from Cons.IH[OF this] show ?case using gi by (simp add: Let_def)
qed

text \<open>
  Claim C9. When every parameter of the groups requires a gradient and every locally owned
  parameter is in some group, \<^verbatim>\<open>_build_optimizer_group_ranges\<close> returns one entry per input
  group, at the same index and holding that group as \<open>orig_group\<close>; an entry holds only owned
  parameters of its group, so the entry of a group without owned parameters is kept, empty; and
  for every owned parameter the recorded pair \<open>(group_index, order)\<close> is a position of the
  output at which the parameter is stored.
\<close>

theorem group_ranges_aligned:
  assumes "\<forall>g \<in> set groups. \<forall>p \<in> set (params g). requires_grad_of p"
      and "\<forall>p \<in> set (owned_params gbuf_ranges). \<exists>g \<in> set groups. p \<in> set (params g)"
  shows "\<exists>local_param_group_map group_ranges.
           build_optimizer_group_ranges requires_grad_of groups gbuf_ranges =
             Inr (local_param_group_map, group_ranges)
         \<and> length group_ranges = length groups
         \<and> (\<forall>i < length groups. orig_group (group_ranges ! i) = groups ! i)
         \<and> (\<forall>i < length groups.
               set (range_params (group_ranges ! i))
                 \<subseteq> set (params (groups ! i)) \<inter> set (owned_params gbuf_ranges))
         \<and> (\<forall>i < length groups.
               set (params (groups ! i)) \<inter> set (owned_params gbuf_ranges) = {}
               \<longrightarrow> range_params (group_ranges ! i) = [])
         \<and> dom local_param_group_map = set (owned_params gbuf_ranges)
         \<and> (\<forall>p \<in> set (owned_params gbuf_ranges).
               \<exists>group_index order.
                 local_param_group_map p = Some (group_index, order)
               \<and> group_index < length group_ranges
               \<and> order < length (range_params (group_ranges ! group_index))
               \<and> range_params (group_ranges ! group_index) ! order = p)"
proof -
  let ?own = "owned_params gbuf_ranges"
  let ?n = "length groups"
  from world_map_total[OF assms(1), of 0 Map.empty] obtain w where
    w: "world_param_group_map requires_grad_of 0 groups Map.empty = Inr w" by blast
  have w_sound: "i < ?n \<and> p \<in> set (params (groups ! i))" if "w p = Some i" for p i
    using world_map_sound[OF w that] by simp
  have w_dom: "\<exists>i. w p = Some i \<and> i < length (map (\<lambda>_. []) groups :: 'a list list)"
    if "p \<in> set ?own" for p
  proof -
    from that assms(2) have "\<exists>g \<in> set groups. p \<in> set (params g)" by blast
    then have "p \<in> dom w" using world_map_dom[OF w, of p] by blast
    then obtain i where "w p = Some i" by blast
    with w_sound[OF this] show ?thesis by simp
  qed
  then have "\<forall>p \<in> set ?own.
      \<exists>i. w p = Some i \<and> i < length (map (\<lambda>_. []) groups :: 'a list list)" by blast
  from assign_total[OF this, of Map.empty] obtain lm gr where
    a: "assign_group_ranges w ?own Map.empty (map (\<lambda>_. []) groups) = Inr (lm, gr)"
    by fastforce
  define grs :: "('a, 'b) group_range list" where
    "grs = map (\<lambda>(group_range, g).
                  \<lparr>range_params = group_range, orig_group = g, orig_group_idx = g\<rparr>)
               (zip gr groups)"
  have res: "build_optimizer_group_ranges requires_grad_of groups gbuf_ranges =
               Inr (lm, grs)"
    unfolding build_optimizer_group_ranges_def grs_def using w a by simp
  have len_gr: "length gr = ?n" using assign_length[OF a] by simp
  have len: "length grs = ?n" unfolding grs_def using len_gr by simp
  have nth_grs: "range_params (grs ! i) = gr ! i" "orig_group (grs ! i) = groups ! i"
    if "i < ?n" for i
    unfolding grs_def using that len_gr by simp_all
  have content: "gr ! i = filter (\<lambda>p. w p = Some i) ?own" if "i < ?n" for i
    using assign_content[OF a, of i] that by simp
  have sub: "set (range_params (grs ! i)) \<subseteq> set (params (groups ! i)) \<inter> set ?own"
    if "i < ?n" for i
    unfolding nth_grs(1)[OF that] content[OF that] using w_sound by auto
  have valid: "positions_valid lm gr"
    by (rule assign_valid[OF a]) (simp add: positions_valid_def)
  have dom: "dom lm = set ?own" using assign_dom[OF a] by simp
  have pos: "\<exists>group_index order.
               lm p = Some (group_index, order) \<and> group_index < length grs
             \<and> order < length (range_params (grs ! group_index))
             \<and> range_params (grs ! group_index) ! order = p" if "p \<in> set ?own" for p
  proof -
    from that dom obtain gi ord where l: "lm p = Some (gi, ord)" by fastforce
    with valid have v: "gi < length gr" "ord < length (gr ! gi)" "gr ! gi ! ord = p"
      unfolding positions_valid_def by blast+
    with len_gr have "gi < ?n" by simp
    from nth_grs(1)[OF this] l v len len_gr show ?thesis by simp
  qed
  show ?thesis
  proof (intro exI conjI)
    show "build_optimizer_group_ranges requires_grad_of groups gbuf_ranges = Inr (lm, grs)"
      by (rule res)
    show "length grs = ?n" by (rule len)
    show "\<forall>i < ?n. orig_group (grs ! i) = groups ! i" using nth_grs(2) by blast
    show "\<forall>i < ?n. set (range_params (grs ! i))
            \<subseteq> set (params (groups ! i)) \<inter> set ?own" using sub by blast
    show "\<forall>i < ?n. set (params (groups ! i)) \<inter> set ?own = {}
            \<longrightarrow> range_params (grs ! i) = []" using sub by fastforce
    show "dom lm = set ?own" by (rule dom)
    show "\<forall>p \<in> set ?own. \<exists>group_index order.
               lm p = Some (group_index, order) \<and> group_index < length grs
             \<and> order < length (range_params (grs ! group_index))
             \<and> range_params (grs ! group_index) ! order = p" using pos by blast
  qed
qed

text \<open>The theorem at three groups, the second of which owns nothing.\<close>

theorem group_ranges_aligned_witness:
  "\<exists>local_param_group_map group_ranges.
     build_optimizer_group_ranges (\<lambda>p. True)
       [\<lparr>params = [1::nat, 2], settings = ()\<rparr>, \<lparr>params = [3], settings = ()\<rparr>,
        \<lparr>params = [4, 5], settings = ()\<rparr>]
       [[(''bf16'', [[(5, \<lparr>gbuf_world = Range_new 0 4, gbuf_world_in_bucket = Range_new 0 4,
                        gbuf_local = Range_new 0 4, param = Range_new 0 4\<rparr>), (2, \<lparr>gbuf_world = Range_new 0 4, gbuf_world_in_bucket = Range_new 0 4,
                        gbuf_local = Range_new 0 4, param = Range_new 0 4\<rparr>)], [(1, \<lparr>gbuf_world = Range_new 0 4, gbuf_world_in_bucket = Range_new 0 4,
                        gbuf_local = Range_new 0 4, param = Range_new 0 4\<rparr>)]])]] = Inr (local_param_group_map, group_ranges)
   \<and> map range_params group_ranges = [[2, 1], [], [5]]
   \<and> local_param_group_map 5 = Some (2, 0)
   \<and> local_param_group_map 2 = Some (0, 0)
   \<and> local_param_group_map 1 = Some (0, 1)"
proof -
  have h1: "\<forall>g \<in> set [\<lparr>params = [1::nat, 2], settings = ()\<rparr>, \<lparr>params = [3], settings = ()\<rparr>,
        \<lparr>params = [4, 5], settings = ()\<rparr>]. \<forall>p \<in> set (params g). (\<lambda>p. True) p" by simp
  have h2: "\<forall>p \<in> set (owned_params [[(''bf16'', [[(5::nat, \<lparr>gbuf_world = Range_new 0 4, gbuf_world_in_bucket = Range_new 0 4,
                        gbuf_local = Range_new 0 4, param = Range_new 0 4\<rparr>), (2, \<lparr>gbuf_world = Range_new 0 4, gbuf_world_in_bucket = Range_new 0 4,
                        gbuf_local = Range_new 0 4, param = Range_new 0 4\<rparr>)], [(1, \<lparr>gbuf_world = Range_new 0 4, gbuf_world_in_bucket = Range_new 0 4,
                        gbuf_local = Range_new 0 4, param = Range_new 0 4\<rparr>)]])]]).
     \<exists>g \<in> set [\<lparr>params = [1::nat, 2], settings = ()\<rparr>, \<lparr>params = [3], settings = ()\<rparr>,
        \<lparr>params = [4, 5], settings = ()\<rparr>]. p \<in> set (params g)"
    by (simp add: owned_params_def)
  from group_ranges_aligned[OF h1 h2] obtain lm grs where
    "build_optimizer_group_ranges (\<lambda>p. True)
       [\<lparr>params = [1::nat, 2], settings = ()\<rparr>, \<lparr>params = [3], settings = ()\<rparr>,
        \<lparr>params = [4, 5], settings = ()\<rparr>]
       [[(''bf16'', [[(5, \<lparr>gbuf_world = Range_new 0 4, gbuf_world_in_bucket = Range_new 0 4,
                        gbuf_local = Range_new 0 4, param = Range_new 0 4\<rparr>), (2, \<lparr>gbuf_world = Range_new 0 4, gbuf_world_in_bucket = Range_new 0 4,
                        gbuf_local = Range_new 0 4, param = Range_new 0 4\<rparr>)], [(1, \<lparr>gbuf_world = Range_new 0 4, gbuf_world_in_bucket = Range_new 0 4,
                        gbuf_local = Range_new 0 4, param = Range_new 0 4\<rparr>)]])]] = Inr (lm, grs)" by blast
  then show ?thesis
    by (auto simp add: build_optimizer_group_ranges_def owned_params_def Let_def)
qed

section \<open>Properties of the shard construction\<close>

lemma shards_of_group_step:
  assumes "requires_grad (attr p)" "param_range_of gbr pgm p = Inr r" "\<not> unsupported attr p"
  shows "\<exists>acc'. shards_of_group attr to_float gbr pgm (p # ps) acc =
                shards_of_group attr to_float gbr pgm ps acc'"
proof (cases "type_name (attr p)
                \<in> set [''torch.cuda.HalfTensor'', ''torch.cuda.BFloat16Tensor'']")
  case True
  show ?thesis
    using assms(1,2) True
    apply (simp add: Let_def)
    apply (rule exI)
    apply (rule refl)
    done
next
  case False
  with assms(3) have f32: "type_name (attr p) = ''torch.cuda.FloatTensor''"
    unfolding unsupported_def by auto
  show ?thesis
    using assms(1,2) f32
    apply (simp add: Let_def)
    apply (rule exI)
    apply (rule refl)
    done
qed

lemma shards_of_group_result:
  assumes "\<forall>p \<in> set ps. requires_grad (attr p) \<and> (\<exists>r. param_range_of gbr pgm p = Inr r)"
  shows "case find (unsupported attr) ps of
           None \<Rightarrow> \<exists>res. shards_of_group attr to_float gbr pgm ps acc = Inr res
         | Some p \<Rightarrow> shards_of_group attr to_float gbr pgm ps acc =
                       Inl (received (type_name (attr p)))"
  using assms
proof (induction ps arbitrary: acc)
  case Nil
  then show ?case by simp
next
  case (Cons p ps)
  from Cons.prems obtain r where r: "requires_grad (attr p)" "param_range_of gbr pgm p = Inr r"
    by auto
  have rest: "\<forall>p \<in> set ps. requires_grad (attr p) \<and> (\<exists>r. param_range_of gbr pgm p = Inr r)"
    using Cons.prems by simp
  show ?case
  proof (cases "unsupported attr p")
    case True
    then show ?thesis using r by (simp add: unsupported_def received_def)
  next
    case False
    from shards_of_group_step[OF r False, of to_float ps acc] obtain acc' where
      "shards_of_group attr to_float gbr pgm (p # ps) acc =
       shards_of_group attr to_float gbr pgm ps acc'" by blast
    with Cons.IH[OF rest, of acc'] False show ?thesis
      by (simp only: find.simps if_False)
  qed
qed

lemma find_append_case:
  "find P (xs @ ys) = (case find P xs of None \<Rightarrow> find P ys | Some x \<Rightarrow> Some x)"
  by (induction xs) auto

lemma build_groups_result:
  assumes "\<forall>p \<in> set (concat (map range_params ogr)).
             requires_grad (attr p) \<and> (\<exists>r. param_range_of gbr pgm p = Inr r)"
  shows "case find (unsupported attr) (concat (map range_params ogr)) of
           None \<Rightarrow> \<exists>res. build_model_and_main_param_groups attr to_float gbr pgm ogr = Inr res
         | Some p \<Rightarrow> build_model_and_main_param_groups attr to_float gbr pgm ogr =
                       Inl (received (type_name (attr p)))"
  using assms
proof (induction ogr)
  case Nil
  then show ?case by simp
next
  case (Cons g ogr)
  have g: "\<forall>p \<in> set (range_params g).
             requires_grad (attr p) \<and> (\<exists>r. param_range_of gbr pgm p = Inr r)"
    using Cons.prems by simp
  have rest: "\<forall>p \<in> set (concat (map range_params ogr)).
             requires_grad (attr p) \<and> (\<exists>r. param_range_of gbr pgm p = Inr r)"
    using Cons.prems by simp
  note G = shards_of_group_result[OF g, of to_float empty_group_shards]
  note IH = Cons.IH[OF rest]
  show ?case
  proof (cases "find (unsupported attr) (range_params g)")
    case (Some p)
    with G show ?thesis by (simp add: find_append_case)
  next
    case None
    with G obtain res where res:
      "shards_of_group attr to_float gbr pgm (range_params g) empty_group_shards = Inr res"
      by auto
    show ?thesis
    proof (cases "find (unsupported attr) (concat (map range_params ogr))")
      case None': None
      with IH obtain groups where
        "build_model_and_main_param_groups attr to_float gbr pgm ogr = Inr groups" by auto
      with None None' res show ?thesis by (simp add: find_append_case)
    next
      case (Some p)
      with IH None res show ?thesis by (simp add: find_append_case)
    qed
  qed
qed

text \<open>
  Claim C8. For parameters that require a gradient and have a range,
  \<^verbatim>\<open>_build_model_and_main_param_groups\<close> raises the \<^verbatim>\<open>TypeError\<close> exactly when some
  parameter's type is none of \<^verbatim>\<open>torch.cuda.HalfTensor\<close>, \<^verbatim>\<open>torch.cuda.BFloat16Tensor\<close>
  and \<^verbatim>\<open>torch.cuda.FloatTensor\<close>; the message ends with the type of such a parameter; and
  when every type is one of the three the construction returns.
\<close>

theorem unsupported_type_error:
  assumes "\<forall>p \<in> set (concat (map range_params ogr)).
             requires_grad (attr p) \<and> (\<exists>r. param_range_of gbr pgm p = Inr r)"
  shows "((\<exists>msg. build_model_and_main_param_groups attr to_float gbr pgm ogr = Inl (TypeError msg))
          \<longleftrightarrow> (\<exists>p \<in> set (concat (map range_params ogr)).
                 type_name (attr p) \<notin> {''torch.cuda.HalfTensor'', ''torch.cuda.BFloat16Tensor'',
                                         ''torch.cuda.FloatTensor''}))
       \<and> (\<forall>msg. build_model_and_main_param_groups attr to_float gbr pgm ogr = Inl (TypeError msg)
            \<longrightarrow> (\<exists>p \<in> set (concat (map range_params ogr)).
                   type_name (attr p) \<notin> {''torch.cuda.HalfTensor'', ''torch.cuda.BFloat16Tensor'',
                                           ''torch.cuda.FloatTensor''}
                 \<and> msg = ''Wrapped parameters must be one of torch.cuda.FloatTensor,  ''
                         @ ''torch.cuda.HalfTensor, or torch.cuda.BFloat16Tensor. Received ''
                         @ type_name (attr p)))
       \<and> ((\<forall>p \<in> set (concat (map range_params ogr)).
              type_name (attr p) \<in> {''torch.cuda.HalfTensor'', ''torch.cuda.BFloat16Tensor'',
                                      ''torch.cuda.FloatTensor''})
            \<longrightarrow> (\<exists>res. build_model_and_main_param_groups attr to_float gbr pgm ogr = Inr res))"
proof -
  note R = build_groups_result[OF assms, of to_float]
  show ?thesis
  proof (cases "find (unsupported attr) (concat (map range_params ogr))")
    case None
    have no: "\<forall>p \<in> set (concat (map range_params ogr)). \<not> unsupported attr p"
      using None[unfolded find_None_iff] by blast
    from None R obtain res where
      "build_model_and_main_param_groups attr to_float gbr pgm ogr = Inr res" by auto
    with no show ?thesis unfolding unsupported_def by auto
  next
    case (Some p)
    then obtain i where i: "i < length (concat (map range_params ogr))"
      "unsupported attr (concat (map range_params ogr) ! i)"
      "p = concat (map range_params ogr) ! i"
      unfolding find_Some_iff by blast
    have p: "p \<in> set (concat (map range_params ogr))" "unsupported attr p"
      using i nth_mem[OF i(1)] by simp_all
    from Some R have
      "build_model_and_main_param_groups attr to_float gbr pgm ogr =
         Inl (received (type_name (attr p)))" by simp
    with p show ?thesis unfolding unsupported_def received_def by auto
  qed
qed

text \<open>The theorem at a group with a double-precision parameter, and without it.\<close>

theorem unsupported_type_error_witness:
  "(\<exists>msg. build_model_and_main_param_groups
      (\<lambda>p. \<lparr>requires_grad = True,
             type_name = (if p = (0::nat) then ''torch.cuda.FloatTensor''
                          else ''torch.cuda.DoubleTensor''),
             flat = [1::int, 2, 3, 4], high_precision_init_val = None,
             tp_attributes = (), shared = None\<rparr>)
      (\<lambda>x. x)
      [[(''fp32'', [[(0, \<lparr>gbuf_world = Range_new 0 4, gbuf_world_in_bucket = Range_new 0 4,
                          gbuf_local = Range_new 0 4, param = Range_new 0 4\<rparr>),
                    (1, \<lparr>gbuf_world = Range_new 4 8, gbuf_world_in_bucket = Range_new 4 8,
                          gbuf_local = Range_new 4 8, param = Range_new 0 4\<rparr>)]])]]
      (\<lambda>p. Some (0, ''fp32'', 0))
      [\<lparr>range_params = [0, 1], orig_group = \<lparr>params = [0, 1], settings = ()\<rparr>,
        orig_group_idx = \<lparr>params = [0, 1], settings = ()\<rparr>\<rparr>] = Inl (TypeError msg))
   \<and> (\<exists>res. build_model_and_main_param_groups
      (\<lambda>p. \<lparr>requires_grad = True,
             type_name = (if p = (0::nat) then ''torch.cuda.FloatTensor''
                          else ''torch.cuda.DoubleTensor''),
             flat = [1::int, 2, 3, 4], high_precision_init_val = None,
             tp_attributes = (), shared = None\<rparr>)
      (\<lambda>x. x)
      [[(''fp32'', [[(0, \<lparr>gbuf_world = Range_new 0 4, gbuf_world_in_bucket = Range_new 0 4,
                          gbuf_local = Range_new 0 4, param = Range_new 0 4\<rparr>),
                    (1, \<lparr>gbuf_world = Range_new 4 8, gbuf_world_in_bucket = Range_new 4 8,
                          gbuf_local = Range_new 4 8, param = Range_new 0 4\<rparr>)]])]]
      (\<lambda>p. Some (0, ''fp32'', 0))
      [\<lparr>range_params = [0], orig_group = \<lparr>params = [0, 1], settings = ()\<rparr>,
        orig_group_idx = \<lparr>params = [0, 1], settings = ()\<rparr>\<rparr>] = Inr res)"
proof (rule conjI)
  let ?attr = "\<lambda>p. \<lparr>requires_grad = True,
             type_name = (if p = (0::nat) then ''torch.cuda.FloatTensor''
                          else ''torch.cuda.DoubleTensor''),
             flat = [1::int, 2, 3, 4], high_precision_init_val = None,
             tp_attributes = (), shared = None\<rparr>"
  let ?gbr = "[[(''fp32'', [[(0::nat, \<lparr>gbuf_world = Range_new 0 4, gbuf_world_in_bucket = Range_new 0 4,
                          gbuf_local = Range_new 0 4, param = Range_new 0 4\<rparr>),
                    (1, \<lparr>gbuf_world = Range_new 4 8, gbuf_world_in_bucket = Range_new 4 8,
                          gbuf_local = Range_new 4 8, param = Range_new 0 4\<rparr>)]])]]"
  let ?pgm = "\<lambda>p::nat. Some (0::nat, ''fp32'', 0::nat)"
  let ?g2 = "[\<lparr>range_params = [0::nat, 1], orig_group = \<lparr>params = [0::nat, 1], settings = ()\<rparr>,
        orig_group_idx = \<lparr>params = [0, 1], settings = ()\<rparr>\<rparr>]"
  let ?g1 = "[\<lparr>range_params = [0::nat], orig_group = \<lparr>params = [0::nat, 1], settings = ()\<rparr>,
        orig_group_idx = \<lparr>params = [0, 1], settings = ()\<rparr>\<rparr>]"
  have h2: "\<forall>p \<in> set (concat (map range_params ?g2)).
             requires_grad (?attr p) \<and> (\<exists>r. param_range_of ?gbr ?pgm p = Inr r)"
    by (simp add: param_range_of_def)
  have h1: "\<forall>p \<in> set (concat (map range_params ?g1)).
             requires_grad (?attr p) \<and> (\<exists>r. param_range_of ?gbr ?pgm p = Inr r)"
    by (simp add: param_range_of_def)
  have bad: "\<exists>p \<in> set (concat (map range_params ?g2)).
                 type_name (?attr p) \<notin> {''torch.cuda.HalfTensor'', ''torch.cuda.BFloat16Tensor'',
                                         ''torch.cuda.FloatTensor''}"
    by simp
  have good: "\<forall>p \<in> set (concat (map range_params ?g1)).
                 type_name (?attr p) \<in> {''torch.cuda.HalfTensor'', ''torch.cuda.BFloat16Tensor'',
                                         ''torch.cuda.FloatTensor''}"
    by simp
  from unsupported_type_error[OF h2, of "\<lambda>x. x"] bad
  show "\<exists>msg. build_model_and_main_param_groups ?attr (\<lambda>x. x) ?gbr ?pgm ?g2 = Inl (TypeError msg)"
    by blast
  from unsupported_type_error[OF h1, of "\<lambda>x. x"] good
  show "\<exists>res. build_model_and_main_param_groups ?attr (\<lambda>x. x) ?gbr ?pgm ?g1 = Inr res"
    by blast
qed

section \<open>Properties of the encoding in bucket space\<close>

lemma no_overlap_no_entry:
  assumes "\<forall>(p, ws, we, b) \<in> set pim. {ws ..< we} \<inter> positions (Range_new gs ge) = {}"
  shows "build_model_gbuf_param_range_map pim (Range_new gs ge) off = []"
  using assms
proof (induction pim)
  case Nil
  then show ?case by simp
next
  case (Cons a pim)
  obtain p ws we b where a: "a = (p, ws, we, b)" by (cases a) auto
  from Cons.prems a have e: "{ws ..< we} \<inter> {gs ..< ge} = {}"
    by (simp add: positions_def Range_new_def)
  have "\<not> max 0 (ws - gs) < min (ge - gs) (we - gs)"
  proof
    assume "max 0 (ws - gs) < min (ge - gs) (we - gs)"
    then have "max ws gs \<in> {ws ..< we} \<inter> {gs ..< ge}" by auto
    with e show False by blast
  qed
  moreover have "build_model_gbuf_param_range_map pim (Range_new gs ge) off = []"
    using Cons by simp
  ultimately show ?case unfolding a by (auto simp add: Range_new_def Let_def)
qed

lemma range_of_is_new:
  "gbuf_world_range_of S m off r =
     Range_new (int r * m + off) (min S (int r * m + m) + off)"
  by (simp add: gbuf_world_range_of_def Let_def)

text \<open>
  Claim C10. When the shard of a rank intersects the range of no parameter of the buffer, the
  rank's parameter map of the bucket is empty and \<^verbatim>\<open>sharded_param_state_fs_bucket_space\<close>
  fails with the assertion \<^verbatim>\<open>empty bucket encountered\<close>: no bucket of padding only is
  emitted.
\<close>

theorem empty_bucket_assertion:
  assumes "0 < W" and "0 \<le> rank" and "rank < W" and "grad_data_numel bkt mod W = 0"
      and "\<forall>(p, ws, we, b) \<in> set pim.
             {ws ..< we} \<inter> positions (gbuf_world_all_ranges (grad_data_numel bkt) W (offset bkt)
                                        ! nat rank) = {}"
  shows "\<exists>param_map.
           build_model_gbuf_range rank W bkt pim = Inr param_map
         \<and> sharded_param_state_fs_bucket_space uninit sharded_bucket_key rank W
             (grad_data_numel bkt) idx opt param_map =
           Inl (AssertionError ''empty bucket encountered'')"
proof -
  let ?S = "grad_data_numel bkt"
  have r: "nat rank < nat W" using assms(1-3) by simp
  have nth: "gbuf_world_all_ranges ?S W (offset bkt) ! nat rank =
             gbuf_world_range_of ?S (?S div W) (offset bkt) (nat rank)"
    using r by (simp add: gbuf_world_all_ranges_def)
  have len: "length (gbuf_world_all_ranges ?S W (offset bkt)) = nat W"
    by (simp add: gbuf_world_all_ranges_def)
  have idx: "py_index (gbuf_world_all_ranges ?S W (offset bkt)) rank =
             Inr (gbuf_world_all_ranges ?S W (offset bkt) ! nat rank)"
    using assms(1-3) len by (simp add: py_index_def)
  have empty: "build_model_gbuf_param_range_map pim
                 (gbuf_world_all_ranges ?S W (offset bkt) ! nat rank) (offset bkt) = []"
    using assms(5) unfolding nth range_of_is_new by (rule no_overlap_no_entry)
  have b: "build_model_gbuf_range rank W bkt pim = Inr []"
    using assms(1,4) idx empty by (simp add: build_model_gbuf_range_def Let_def)
  have "sharded_param_state_fs_bucket_space uninit sharded_bucket_key rank W ?S idx opt [] =
          Inl (AssertionError ''empty bucket encountered'')"
    using assms(1,4) by (simp add: sharded_param_state_fs_bucket_space_def Let_def)
  with b show ?thesis by blast
qed

text \<open>The theorem at a bucket of 8 elements whose only parameter lies in the shard of rank 0.\<close>

theorem empty_bucket_assertion_witness:
  "\<exists>param_map.
     build_model_gbuf_range 1 2 \<lparr>grad_data_numel = 8, offset = 0, numel_unpadded = 3\<rparr>
       [(''A'', 0, 3, 0::nat)] = Inr param_map
   \<and> sharded_param_state_fs_bucket_space (0::int) ''bucket'' 1 2 8
       (\<lambda>p. Some (0, 0))
       \<lparr>param_groups = [[''mA'']], main_data = (\<lambda>m. [7, 8, 9]), state = (\<lambda>m. [])\<rparr>
       param_map = Inl (AssertionError ''empty bucket encountered'')"
proof -
  have h: "\<forall>(p, ws, we, b) \<in> set [(''A'', 0::int, 3::int, 0::nat)].
             {ws ..< we} \<inter> positions (gbuf_world_all_ranges
                (grad_data_numel \<lparr>grad_data_numel = 8, offset = 0, numel_unpadded = 3\<rparr>) 2
                (offset \<lparr>grad_data_numel = 8, offset = 0, numel_unpadded = 3\<rparr>) ! nat 1) = {}"
    by (simp add: gbuf_world_all_ranges_def gbuf_world_range_of_def positions_def Range_new_def
        Let_def)
  have "(0::int) < 2" "(0::int) \<le> 1" "(1::int) < 2"
       "grad_data_numel \<lparr>grad_data_numel = 8, offset = 0, numel_unpadded = 3\<rparr> mod 2 = 0"
    by simp_all
  from empty_bucket_assertion[OF this h, of "0::int" "''bucket''" "\<lambda>p. Some (0, 0)"
      "\<lparr>param_groups = [[''mA'']], main_data = (\<lambda>m. [7, 8, 9]), state = (\<lambda>m. [])\<rparr>"]
  show ?thesis by simp
qed

text \<open>
  Claim C3, at a bucket of 384 elements shared by 128 ranks (shards of 3 elements) with the
  parameters \<open>[0, 70)\<close> and \<open>[128, 328)\<close>, which start at multiples of 64: the shard of
  rank 42 is \<open>[126, 129)\<close>, its only record is the local range \<open>[2, 3)\<close>, and the emitted
  bucket state is that record alone. No padding is put before the first record, so the emitted
  ranges do not cover the positions 0 and 1 of the shard.
\<close>

theorem bucket_space_leading_gap:
  "build_model_gbuf_range 42 128 \<lparr>grad_data_numel = 384, offset = 0, numel_unpadded = 328\<rparr>
     [(''A'', 0, 70, 0::nat), (''B'', 128, 328, 0)] =
     Inr [(''B'', \<lparr>gbuf_world = Range_new 128 129, gbuf_world_in_bucket = Range_new 128 129,
                   gbuf_local = Range_new 2 3, param = Range_new 0 1\<rparr>)]
   \<and> map_sum id (map (\<lambda>elem. (map (flattened_range \<circ> snd) (sharded_tensors elem),
                               is_padding elem)))
       (sharded_param_state_fs_bucket_space (0::int) ''bucket'' 42 128 384
          (\<lambda>p. if p = ''B'' then Some (0, 0) else None)
          \<lparr>param_groups = [[''mB'']], main_data = (\<lambda>m. [7]),
            state = (\<lambda>m. [(''exp_avg'', [1]), (''exp_avg_sq'', [4])])\<rparr>
          [(''B'', \<lparr>gbuf_world = Range_new 128 129, gbuf_world_in_bucket = Range_new 128 129,
                    gbuf_local = Range_new 2 3, param = Range_new 0 1\<rparr>)]) =
     Inr [([(2, 3), (2, 3), (2, 3)], False)]"
  by (simp add: build_model_gbuf_range_def py_index_def gbuf_world_all_ranges_def
      gbuf_world_range_of_def Range_new_def normalize_r_def Let_def
      sharded_param_state_fs_bucket_space_def main_param_of_def param_and_state_def
      insert_pads_def append_tail_pad_def)

text \<open>
  The padding pass in general, for a bucket state that is not empty and whose elements are in
  increasing order and end within the shard: the two insertion loops build the one-pass result;
  the padded state is chained from the start of the first element to the length of the shard;
  the elements that are not padding are the original ones, in order; the number of padding
  elements is the number of gaps, plus one when the last element ends before the shard does.
  The loaded elements that are not padding are the saved tensors, in order.
\<close>

lemma list_insert_Suc: "list_insert (x # xs) (Suc k) y = x # list_insert xs k y"
  by (simp add: list_insert_def)

lemma insert_shift:
  "\<forall>(j, pad) \<in> set pads. i < j \<Longrightarrow>
   foldr (\<lambda>(index_to_insert, pad) bs. list_insert bs (index_to_insert - i) pad) pads (x # xs) =
   x # foldr (\<lambda>(index_to_insert, pad) bs. list_insert bs (index_to_insert - Suc i) pad) pads xs"
proof (induction pads)
  case Nil
  then show ?case by simp
next
  case (Cons a pads)
  obtain j pad where a: "a = (j, pad)" by (cases a)
  from Cons.prems have ij: "i < j" and rest: "\<forall>(j, pad) \<in> set pads. i < j"
    unfolding a by auto
  have s: "j - i = Suc (j - Suc i)" using ij by simp
  show ?case unfolding a using Cons.IH[OF rest]
    by (simp add: s list_insert_Suc)
qed

lemma all_pads_weave:
  "ordered bs \<Longrightarrow>
   \<exists>pads. all_pad_tensors uninit i bs = Inr pads
        \<and> (\<forall>(j, pad) \<in> set pads. i < j)
        \<and> length pads = gaps bs
        \<and> foldr (\<lambda>(index_to_insert, pad) bs. list_insert bs (index_to_insert - i) pad) pads bs
            = weave uninit bs"
proof (induction uninit i bs rule: all_pad_tensors.induct)
  case (1 uninit i cur nxt rest)
  from "1.prems" have le: "gbuf_local_end cur \<le> gbuf_local_start nxt"
    and o: "ordered (nxt # rest)" by simp_all
  show ?case
  proof (cases "gbuf_local_start nxt \<noteq> gbuf_local_end cur")
    case True
    let ?pad = "\<lparr>tensors = map (\<lambda>(k, v). (k, replicate (nat (gbuf_local_start nxt
                                                             - gbuf_local_end cur)) uninit))
                             (tensors cur),
                gbuf_local_start = gbuf_local_end cur,
                gbuf_local_end = gbuf_local_start nxt,
                padding = Some True\<rparr>"
    have pe: "pad_elem uninit cur (gbuf_local_end cur) (gbuf_local_start nxt) = Inr ?pad"
      using le by (simp add: pad_elem_def)
    from "1.IH"(1)[OF refl refl True pe o] obtain pads where
      p: "all_pad_tensors uninit (Suc i) (nxt # rest) = Inr pads"
      and gt: "\<forall>(j, pad) \<in> set pads. Suc i < j"
      and len: "length pads = gaps (nxt # rest)"
      and w: "foldr (\<lambda>(index_to_insert, pad) bs. list_insert bs (index_to_insert - Suc i) pad)
                pads (nxt # rest) = weave uninit (nxt # rest)"
      by blast
    have gt': "\<forall>(j, pad) \<in> set pads. i < j" using gt by auto
    have A: "all_pad_tensors uninit i (cur # nxt # rest) = Inr ((Suc i, ?pad) # pads)"
      using True pe p by (simp add: Let_def)
    have D: "foldr (\<lambda>(index_to_insert, pad) bs. list_insert bs (index_to_insert - i) pad)
             ((Suc i, ?pad) # pads) (cur # nxt # rest) = weave uninit (cur # nxt # rest)"
      using True insert_shift[OF gt', of cur "nxt # rest"] w
      by (simp add: list_insert_def)
    have B: "\<forall>(j, pad) \<in> set ((Suc i, ?pad) # pads). i < j" using gt' by simp
    have C: "length ((Suc i, ?pad) # pads) = gaps (cur # nxt # rest)" using len True by simp
    from A B C D show ?thesis by blast
  next
    case False
    from "1.IH"(2)[OF refl refl False o] obtain pads where
      p: "all_pad_tensors uninit (Suc i) (nxt # rest) = Inr pads"
      and gt: "\<forall>(j, pad) \<in> set pads. Suc i < j"
      and len: "length pads = gaps (nxt # rest)"
      and w: "foldr (\<lambda>(index_to_insert, pad) bs. list_insert bs (index_to_insert - Suc i) pad)
                pads (nxt # rest) = weave uninit (nxt # rest)"
      by blast
    have gt': "\<forall>(j, pad) \<in> set pads. i < j" using gt by auto
    have A: "all_pad_tensors uninit i (cur # nxt # rest) = Inr pads"
      using False p by (simp add: Let_def)
    have D: "foldr (\<lambda>(index_to_insert, pad) bs. list_insert bs (index_to_insert - i) pad)
             pads (cur # nxt # rest) = weave uninit (cur # nxt # rest)"
      using False insert_shift[OF gt', of cur "nxt # rest"] w by simp
    have C: "length pads = gaps (cur # nxt # rest)" using len False by simp
    from A gt' C D show ?thesis by blast
  qed
qed simp_all

lemma weave_not_empty: "bs \<noteq> [] \<Longrightarrow> weave uninit bs \<noteq> []"
  by (induction uninit bs rule: weave.induct) auto

lemma weave_hd: "hd (weave uninit bs) = hd bs"
  by (induction uninit bs rule: weave.induct) auto

lemma weave_last: "last (weave uninit bs) = last bs"
  by (induction uninit bs rule: weave.induct) (auto simp: weave_not_empty)

lemma weave_chained: "chained (weave uninit bs)"
proof (induction uninit bs rule: weave.induct)
  case (1 uninit cur nxt rest)
  have h: "hd (weave uninit (nxt # rest)) = nxt" by (simp add: weave_hd)
  have ne: "weave uninit (nxt # rest) \<noteq> []" by (simp add: weave_not_empty)
  then obtain y ys where w: "weave uninit (nxt # rest) = y # ys" by (cases "weave uninit (nxt # rest)") auto
  with h have y: "y = nxt" by simp
  show ?case using 1 w y by (auto split: if_splits)
qed simp_all

lemma weave_filter:
  "\<forall>b \<in> set bs. padding b = None \<Longrightarrow> filter (\<lambda>b. padding b = None) (weave uninit bs) = bs"
  by (induction uninit bs rule: weave.induct) auto

lemma weave_count:
  "\<forall>b \<in> set bs. padding b = None \<Longrightarrow>
   length (filter (\<lambda>b. padding b = Some True) (weave uninit bs)) = gaps bs"
  by (induction uninit bs rule: weave.induct) auto

lemma chained_append:
  "chained xs \<Longrightarrow> xs \<noteq> [] \<Longrightarrow> gbuf_local_start y = gbuf_local_end (last xs) \<Longrightarrow>
   chained (xs @ [y])"
  by (induction xs rule: chained.induct) auto

lemma insert_pads_foldr:
  "insert_pads pads bs =
   foldr (\<lambda>(index_to_insert, pad) bs. list_insert bs (index_to_insert - 0) pad) pads bs"
  by (simp add: insert_pads_def foldr_conv_fold)

lemma padding_pass:
  assumes "bs \<noteq> []" and "ordered bs" and "\<forall>b \<in> set bs. padding b = None"
      and "gbuf_local_end (last bs) \<le> L"
  shows "\<exists>pads padded.
           all_pad_tensors uninit 0 bs = Inr pads
         \<and> append_tail_pad uninit L (insert_pads pads bs) = Inr padded
         \<and> chained padded
         \<and> gbuf_local_start (hd padded) = gbuf_local_start (hd bs)
         \<and> gbuf_local_end (last padded) = L
         \<and> filter (\<lambda>b. padding b = None) padded = bs
         \<and> length (filter (\<lambda>b. padding b = Some True) padded) =
             gaps bs + (if gbuf_local_end (last bs) \<noteq> L then 1 else 0)"
proof -
  from all_pads_weave[OF assms(2), of uninit 0] obtain pads where
    p: "all_pad_tensors uninit 0 bs = Inr pads"
    and w: "insert_pads pads bs = weave uninit bs"
    unfolding insert_pads_foldr by blast
  let ?w = "weave uninit bs"
  have ne: "?w \<noteq> []" using assms(1) by (rule weave_not_empty)
  have hd: "hd ?w = hd bs" by (rule weave_hd)
  have la: "last ?w = last bs" by (rule weave_last)
  show ?thesis
  proof (cases "gbuf_local_end (last bs) \<noteq> L")
    case False
    then have t: "append_tail_pad uninit L (insert_pads pads bs) = Inr ?w"
      by (simp add: append_tail_pad_def la w)
    have c: "chained ?w" by (rule weave_chained)
    have h: "gbuf_local_start (hd ?w) = gbuf_local_start (hd bs)" by (simp add: hd)
    have l: "gbuf_local_end (last ?w) = L" using False by (simp add: la)
    have f: "filter (\<lambda>b. padding b = None) ?w = bs"
      by (rule weave_filter[OF assms(3)])
    have n: "length (filter (\<lambda>b. padding b = Some True) ?w) =
             gaps bs + (if gbuf_local_end (last bs) \<noteq> L then 1 else 0)"
      using weave_count[OF assms(3), of uninit] False by simp
    from p t c h l f n show ?thesis by blast
  next
    case True
    let ?pad = "\<lparr>tensors = map (\<lambda>(k, v). (k, replicate (nat (L - gbuf_local_end (last bs)))
                                                uninit)) (tensors (last bs)),
                gbuf_local_start = gbuf_local_end (last bs),
                gbuf_local_end = L,
                padding = Some True\<rparr>"
    have t: "append_tail_pad uninit L (insert_pads pads bs) = Inr (?w @ [?pad])"
      using True assms(4) by (simp add: append_tail_pad_def la pad_elem_def w)
    have c: "chained (?w @ [?pad])"
      by (rule chained_append[OF weave_chained ne]) (simp add: la)
    have h: "gbuf_local_start (hd (?w @ [?pad])) = gbuf_local_start (hd bs)"
      using ne hd by simp
    have f: "filter (\<lambda>b. padding b = None) (?w @ [?pad]) = bs"
      using weave_filter[OF assms(3), of uninit] by simp
    have l: "gbuf_local_end (last (?w @ [?pad])) = L" by simp
    have n: "length (filter (\<lambda>b. padding b = Some True) (?w @ [?pad])) =
             gaps bs + (if gbuf_local_end (last bs) \<noteq> L then 1 else 0)"
      using weave_count[OF assms(3), of uninit] True by simp
    from p t c h l f n show ?thesis by blast
  qed
qed

lemma wrap_tensors_data:
  "wrap_tensors key r W L s e ts = Inr out \<Longrightarrow>
   map (\<lambda>(k, t). (k, st_data t)) out = ts \<and> (\<forall>(k, t) \<in> set out. flattened_range t = (s, e))"
proof (induction ts arbitrary: out)
  case Nil
  then show ?case by simp
next
  case (Cons a ts)
  obtain k v where a: "a = (k, v)" by (cases a)
  from Cons.prems obtain out' where
    r: "wrap_tensors key r W L s e ts = Inr out'"
    and o: "\<exists>t. out = (k, t) # out' \<and> st_data t = v \<and> flattened_range t = (s, e)"
    unfolding a by (auto split: if_splits sum.splits)
  from Cons.IH[OF r] o show ?case unfolding a by auto
qed

lemma wrap_elems_stored:
  "wrap_elems key r W L padded = Inr out \<Longrightarrow>
   map stored_elem out =
     map (\<lambda>b. \<lparr>loaded_tensors = tensors b, loaded_padding = (padding b = Some True)\<rparr>) padded"
proof (induction padded arbitrary: out)
  case Nil
  then show ?case by simp
next
  case (Cons b padded)
  from Cons.prems obtain ts out' where
    t: "wrap_tensors key r W L (gbuf_local_start b) (gbuf_local_end b) (tensors b) = Inr ts"
    and r: "wrap_elems key r W L padded = Inr out'"
    and o: "out = \<lparr>sharded_tensors = ts,
                   is_padding = (case padding b of None \<Rightarrow> False | Some x \<Rightarrow> x)\<rparr> # out'"
    by (auto split: sum.splits)
  have "(case padding b of None \<Rightarrow> False | Some x \<Rightarrow> x) = (padding b = Some True)"
    by (cases "padding b") auto
  with Cons.IH[OF r] wrap_tensors_data[OF t] show ?case unfolding o
    by (simp add: stored_elem_def)
qed

lemma restore_drops_padding:
  assumes "wrap_elems key r W L padded = Inr out"
      and "filter (\<lambda>b. padding b = None) padded = bs"
      and "\<forall>b \<in> set padded. padding b = None \<or> padding b = Some True"
  shows "filter (\<lambda>e. \<not> loaded_padding e) (map stored_elem out) =
           map (\<lambda>b. \<lparr>loaded_tensors = tensors b, loaded_padding = False\<rparr>) bs"
proof -
  have "filter (\<lambda>e. \<not> loaded_padding e)
          (map (\<lambda>b. \<lparr>loaded_tensors = tensors b, loaded_padding = (padding b = Some True)\<rparr>)
               padded) =
        map (\<lambda>b. \<lparr>loaded_tensors = tensors b, loaded_padding = False\<rparr>)
            (filter (\<lambda>b. padding b = None) padded)"
    using assms(3) by (induction padded) auto
  then show ?thesis unfolding wrap_elems_stored[OF assms(1)] assms(2) .
qed

section \<open>Properties of the encoding in model space\<close>

lemma replace_tensors_result:
  "replace_tensors valid dtype_of sm item_slice rid ts = Inr out \<Longrightarrow>
   map fst out = map fst ts \<and> (\<forall>(k, t) \<in> set out. sh_replica_id t = rid)"
proof (induction ts arbitrary: out)
  case Nil
  then show ?case by simp
next
  case (Cons a ts)
  obtain k v where a: "a = (k, v)" by (cases a)
  from Cons.prems obtain out' where
    r: "replace_tensors valid dtype_of sm item_slice rid ts = Inr out'"
    and o: "\<exists>t. out = (k, t) # out' \<and> sh_replica_id t = rid"
    unfolding a by (auto simp: Let_def split: if_splits sum.splits)
  from Cons.IH[OF r] o show ?case unfolding a by auto
qed

lemma get_param_state_replica:
  assumes "get_param_state_sharded_tensors valid dtype_of prepopulate uninit metadata opt
             model_param main_param item_slice = Inr out"
  shows "\<exists>sharded_metadata pp tp dp.
           metadata model_param = Some sharded_metadata
         \<and> sh_replica_id sharded_metadata = ReplicaTuple [pp, tp, dp]
         \<and> map fst out =
             map fst (fold (\<lambda>(k, v). AList.update k v)
                        (optim_state_for prepopulate uninit opt main_param)
                        [(''fp32_param'', main_data opt main_param)])
         \<and> (\<forall>(state_key, t) \<in> set out. sh_replica_id t = ReplicaTuple [pp, tp, 0])"
proof -
  from assms obtain sm coords where
    sm: "metadata model_param = Some sm" "sh_replica_id sm = ReplicaTuple coords"
    and len: "length coords = 3"
    and r: "replace_tensors valid dtype_of sm item_slice (ReplicaTuple (take 2 coords @ [0]))
              (fold (\<lambda>(k, v). AList.update k v)
                 (optim_state_for prepopulate uninit opt main_param)
                 [(''fp32_param'', main_data opt main_param)]) = Inr out"
    unfolding get_param_state_sharded_tensors_def
    by (auto simp: Let_def split: option.splits replica.splits if_splits)
  from len obtain pp tp dp where c: "coords = [pp, tp, dp]"
    by (cases coords; cases "tl coords"; cases "tl (tl coords)") auto
  from replace_tensors_result[OF r] sm show ?thesis unfolding c by auto
qed

lemma model_space_entries_result:
  "model_space_entries valid dtype_of uninit metadata idx opt items = Inr st \<Longrightarrow>
   list_all2 (\<lambda>item sharded.
      \<exists>main_param. main_param_of idx opt (fst item) = Inr main_param
        \<and> get_param_state_sharded_tensors valid dtype_of False uninit metadata opt (fst item)
             main_param (start_r (param (snd item)), end_r (param (snd item))) = Inr sharded)
     items st"
proof (induction items arbitrary: st)
  case Nil
  then show ?case by simp
next
  case (Cons a items)
  obtain p prm where a: "a = (p, prm)" by (cases a)
  from Cons.prems obtain m sharded st' where
    m: "main_param_of idx opt p = Inr m"
    and g: "get_param_state_sharded_tensors valid dtype_of False uninit metadata opt p m
              (start_r (param prm), end_r (param prm)) = Inr sharded"
    and r: "model_space_entries valid dtype_of uninit metadata idx opt items = Inr st'"
    and st: "st = sharded # st'"
    unfolding a by (auto simp: Let_def split: sum.splits)
  from Cons.IH[OF r] m g show ?case unfolding a st by auto
qed

text \<open>
  Claim C7. When \<^verbatim>\<open>sharded_param_state_fs_model_space\<close> returns, its result has one entry
  for every locally owned parameter, in order; the entry has one tensor for every key of
  \<^verbatim>\<open>{"fp32_param": main_param, **optim_state}\<close>, and the \<^verbatim>\<open>replica_id\<close> of every one of
  them is the \<^verbatim>\<open>replica_id\<close> \<open>(pp, tp, dp)\<close> of the parameter's model metadata with the
  last coordinate replaced by zero.
\<close>

theorem model_space_replica_id:
  assumes "sharded_param_state_fs_model_space valid dtype_of uninit model_sharded_state_dict
             idx opt gbuf_ranges = Inr st"
  shows "length st = length (owned_items gbuf_ranges)
       \<and> (\<forall>i < length st.
            \<exists>sharded_metadata pp tp dp main_param.
              param_to_sharded_metadata model_sharded_state_dict
                (fst (owned_items gbuf_ranges ! i)) = Some sharded_metadata
            \<and> sh_replica_id sharded_metadata = ReplicaTuple [pp, tp, dp]
            \<and> main_param_of idx opt (fst (owned_items gbuf_ranges ! i)) = Inr main_param
            \<and> map fst (st ! i) =
                map fst (fold (\<lambda>(k, v). AList.update k v) (state opt main_param)
                           [(''fp32_param'', main_data opt main_param)])
            \<and> (\<forall>(state_key, t) \<in> set (st ! i).
                  sh_replica_id t = ReplicaTuple [pp, tp, 0]))"
proof -
  let ?items = "owned_items gbuf_ranges"
  let ?md = "param_to_sharded_metadata model_sharded_state_dict"
  from assms have
    "model_space_entries valid dtype_of uninit ?md idx opt ?items = Inr st"
    by (simp add: sharded_param_state_fs_model_space_def)
  from model_space_entries_result[OF this] have
    all: "list_all2 (\<lambda>item sharded.
      \<exists>main_param. main_param_of idx opt (fst item) = Inr main_param
        \<and> get_param_state_sharded_tensors valid dtype_of False uninit ?md opt (fst item)
             main_param (start_r (param (snd item)), end_r (param (snd item))) = Inr sharded)
     ?items st" .
  then have len: "length st = length ?items" by (simp add: list_all2_lengthD)
  have "\<exists>sharded_metadata pp tp dp main_param.
              ?md (fst (?items ! i)) = Some sharded_metadata
            \<and> sh_replica_id sharded_metadata = ReplicaTuple [pp, tp, dp]
            \<and> main_param_of idx opt (fst (?items ! i)) = Inr main_param
            \<and> map fst (st ! i) =
                map fst (fold (\<lambda>(k, v). AList.update k v) (state opt main_param)
                           [(''fp32_param'', main_data opt main_param)])
            \<and> (\<forall>(state_key, t) \<in> set (st ! i).
                  sh_replica_id t = ReplicaTuple [pp, tp, 0])" if "i < length st" for i
  proof -
    from list_all2_nthD2[OF all that] obtain m where
      m: "main_param_of idx opt (fst (?items ! i)) = Inr m"
      and g: "get_param_state_sharded_tensors valid dtype_of False uninit ?md opt
                (fst (?items ! i)) m
                (start_r (param (snd (?items ! i))), end_r (param (snd (?items ! i))))
              = Inr (st ! i)" by blast
    from get_param_state_replica[OF g] m show ?thesis
      by (simp add: optim_state_for_def)
  qed
  with len show ?thesis by blast
qed

text \<open>The theorem at one owned parameter whose metadata has the replica id \<open>(1, 2, 3)\<close>.\<close>

theorem model_space_replica_id_witness:
  "\<exists>st.
   sharded_param_state_fs_model_space (\<lambda>t. True) (\<lambda>t. 32::nat) (0::int)
     [\<lparr>sh_key = ''w'', sh_data = 5::nat, sh_dtype = Some 16,
       sh_flattened_range = None, sh_replica_id = ReplicaTuple [1, 2, 3], is_factory = False,
       other_fields = ()\<rparr>]
     (\<lambda>p. if p = 5 then Some (0, 0) else None)
     \<lparr>param_groups = [[7::nat]], main_data = (\<lambda>m. [7, 8, 9]),
       state = (\<lambda>m. [(''exp_avg'', [1, 2, 3])])\<rparr>
     [[(16::nat, [[(5, \<lparr>gbuf_world = Range_new 5 8, gbuf_world_in_bucket = Range_new 5 8,
                         gbuf_local = Range_new 1 4, param = Range_new 0 3\<rparr>)]])]] = Inr st
   \<and> length st = 1
   \<and> (\<forall>(state_key, t) \<in> set (st ! 0). sh_replica_id t = ReplicaTuple [1, 2, 0])"
proof -
  let ?md = "[\<lparr>sh_key = ''w'', sh_data = 5::nat, sh_dtype = Some (16::nat),
       sh_flattened_range = None, sh_replica_id = ReplicaTuple [1, 2, 3], is_factory = False,
       other_fields = ()\<rparr>]"
  let ?gb = "[[(16::nat, [[(5::nat, \<lparr>gbuf_world = Range_new 5 8, gbuf_world_in_bucket = Range_new 5 8,
                         gbuf_local = Range_new 1 4, param = Range_new 0 3\<rparr>)]])]]"
  let ?r = "sharded_param_state_fs_model_space (\<lambda>t. True) (\<lambda>t. 32::nat) (0::int) ?md
     (\<lambda>p. if p = 5 then Some (0, 0) else None)
     \<lparr>param_groups = [[7::nat]], main_data = (\<lambda>m. [7, 8, 9]),
       state = (\<lambda>m. [(''exp_avg'', [1, 2, 3])])\<rparr> ?gb"
  have "\<exists>st. ?r = Inr st"
    by (simp add: sharded_param_state_fs_model_space_def owned_items_def main_param_of_def
        get_param_state_sharded_tensors_def optim_state_for_def param_to_sharded_metadata_def
        Let_def)
  then obtain st where st: "?r = Inr st" by blast
  have o: "owned_items ?gb = [(5, \<lparr>gbuf_world = Range_new 5 8, gbuf_world_in_bucket = Range_new 5 8,
                         gbuf_local = Range_new 1 4, param = Range_new 0 3\<rparr>)]"
    by (simp add: owned_items_def)
  have md: "param_to_sharded_metadata ?md 5 = Some \<lparr>sh_key = ''w'', sh_data = 5::nat, sh_dtype = Some (16::nat),
       sh_flattened_range = None, sh_replica_id = ReplicaTuple [1, 2, 3], is_factory = False,
       other_fields = ()\<rparr>"
    by (simp add: param_to_sharded_metadata_def)
  note t = model_space_replica_id[OF st, unfolded o]
  from t have len: "length st = 1" by simp
  from t len obtain sm pp tp dp where
    sm: "param_to_sharded_metadata ?md (fst ([(5::nat, \<lparr>gbuf_world = Range_new 5 8,
            gbuf_world_in_bucket = Range_new 5 8, gbuf_local = Range_new 1 4,
            param = Range_new 0 3\<rparr>)] ! 0)) = Some sm"
    "sh_replica_id sm = ReplicaTuple [pp, tp, dp]"
    and all: "\<forall>(state_key, t) \<in> set (st ! 0). sh_replica_id t = ReplicaTuple [pp, tp, 0]"
    by force
  from sm md have "pp = 1" "tp = 2" by auto
  with all st len show ?thesis by blast
qed

section \<open>Properties of the load from rank 0\<close>









lemma copy_tensor_same_length:
  "length src = length dst \<Longrightarrow> copy_tensor dst src = Inr src"
  by (simp add: copy_tensor_def)



section \<open>Properties of the split for float8 buffers\<close>

lemma build_fp8_flags_never_returns:
  "build_fp8_flags fp8_param_indices non_fp8_param_indices \<noteq> Inr fp8_flags"
  by (auto simp: build_fp8_flags_def Let_def split: sum.splits)

lemma split_one_never_returns:
  "split_one uninit uint8 buffers gbuf_dtypes old fp8_gbuf_idx new \<noteq> Inr new'"
proof
  assume a: "split_one uninit uint8 buffers gbuf_dtypes old fp8_gbuf_idx new = Inr new'"
  then obtain n where
    "find_non_fp8_gbuf_idx
       (param_dtype (hd (buffer_params (buffers ! fp8_gbuf_idx))),
        grad_dtype (buffers ! fp8_gbuf_idx)) 0 gbuf_dtypes None = Some n"
    unfolding split_one_def Let_def by (auto split: option.splits)
  with a obtain fl where
    "build_fp8_flags (param_indices (buffers ! fp8_gbuf_idx)) (param_indices (buffers ! n))
     = Inr fl"
    unfolding split_one_def Let_def by (auto split: if_splits sum.splits)
  then show False using build_fp8_flags_never_returns by blast
qed

lemma split_all_never_returns:
  "fp8_idxs \<noteq> [] \<Longrightarrow>
   split_all uninit uint8 buffers gbuf_dtypes old fp8_idxs new \<noteq> Inr new'"
  by (cases fp8_idxs) (auto simp: split_one_never_returns split: sum.splits)

lemma split_never_changes:
  "split_state_dict_if_needed uninit uint8 buffers gbuf_dtypes sd = Inr sd' \<Longrightarrow> sd' = sd"
  unfolding split_state_dict_if_needed_def
  by (auto simp: split_all_never_returns split: sum.splits if_splits option.splits)

text \<open>
  Claim C5, at a float8 buffer with one parameter of 2 elements (index 0), its companion
  buffer with one parameter of 3 elements (index 1), and a checkpoint that holds one coalesced
  state of 5 elements: \<^verbatim>\<open>split_state_dict_if_needed\<close> raises \<^verbatim>\<open>UnboundLocalError\<close> in the
  loop that should fill \<^verbatim>\<open>fp8_flags\<close>, before any tensor is split. The dtypes are numbered
  0 for \<^verbatim>\<open>torch.uint8\<close>, 1 for \<^verbatim>\<open>torch.bfloat16\<close> and 2 for \<^verbatim>\<open>torch.float32\<close>.
\<close>

theorem split_unbound_flag:
  "split_state_dict_if_needed (0::int) (0::nat)
     [\<lparr>buffer_params = [\<lparr>nelement = 2, is_float8tensor = True, param_dtype = 1\<rparr>],
       grad_dtype = 2::nat, param_indices = [0]\<rparr>,
      \<lparr>buffer_params = [\<lparr>nelement = 3, is_float8tensor = False, param_dtype = 1\<rparr>],
       grad_dtype = 2, param_indices = [1]\<rparr>]
     [[(0, 2)], [(1, 2)]]
     \<lparr>buckets_coalesced = True,
      gbuf_states = [(0, [((1, 2),
         \<lparr>ckpt_numel_unpadded = 5,
          world_tensors = [(''param'', [1, 2, 3, 4, 5]), (''exp_avg'', [6, 7, 8, 9, 10]),
                           (''exp_avg_sq'', [11, 12, 13, 14, 15])]\<rparr>)])]\<rparr> =
     Inl (UnboundLocalError ''fp8_flag'')
   \<and> build_fp8_flags [0] [1] = Inl (UnboundLocalError ''fp8_flag'')"
  by (simp add: split_state_dict_if_needed_def split_one_def build_fp8_flags_def Let_def)

end
